theory Spec2Isabelle
  imports Main "HOL-Library.Char_ord" "HOL-Library.List_Lexorder"
begin

section \<open>Python values, dictionaries and exceptions\<close>

text \<open>
  The example scripts pass small Python dictionaries with string keys between their helper
  functions. A Python \<open>str\<close> is modelled as a \<open>string\<close> in which every \<open>char\<close> stands
  for one code point below 256, so that \<open>length\<close> is Python's \<open>len\<close>. A \<open>dict\<close> is an
  association list in insertion order (Python dictionaries keep it, and \<open>items()\<close> shows it).
  The values are \<open>None\<close>, booleans, integers and strings; floats, lists, nested dictionaries
  and objects of other classes are not modelled. An exception is its class and the text
  that \<open>str(e)\<close> gives.
\<close>

datatype pyval = PNone | PBool bool | PInt int | PStr string

type_synonym pydict = "(string \<times> pyval) list"

datatype exc_class =
    ValueError | TypeError | KeyError | AttributeError | ConnectionError
  | OverflowError | EOFError | ImportError | StopIteration | RuntimeError
  | KeyboardInterrupt | SystemExit

datatype pyexc = PyExc exc_class string

fun exc_cls :: "pyexc \<Rightarrow> exc_class" where
  "exc_cls (PyExc c m) = c"

fun exc_msg :: "pyexc \<Rightarrow> string" where
  "exc_msg (PyExc c m) = m"

text \<open>
  \<open>isinstance(e, Exception)\<close>: \<open>KeyboardInterrupt\<close> and \<open>SystemExit\<close> derive from
  \<open>BaseException\<close> only, every other class above derives from \<open>Exception\<close>.
\<close>

fun is_Exception :: "exc_class \<Rightarrow> bool" where
  "is_Exception KeyboardInterrupt = False"
| "is_Exception SystemExit = False"
| "is_Exception c = True"

text \<open>
  \<open>str(v)\<close>, as an f-string applies it to a substituted value; an integer is written in
  decimal, whatever its size.
\<close>

definition digit_char :: "nat \<Rightarrow> char" where
  "digit_char d = char_of (of_char (CHR ''0'') + d)"

fun str_of_nat :: "nat \<Rightarrow> string" where
  "str_of_nat n = (if n < 10 then [digit_char n] else str_of_nat (n div 10) @ [digit_char (n mod 10)])"

declare str_of_nat.simps [simp del]

definition str_of_int :: "int \<Rightarrow> string" where
  "str_of_int i = (if i < 0 then CHR ''-'' # str_of_nat (nat (- i)) else str_of_nat (nat i))"

fun py_str :: "pyval \<Rightarrow> string" where
  "py_str PNone = ''None''"
| "py_str (PBool b) = (if b then ''True'' else ''False'')"
| "py_str (PInt i) = str_of_int i"
| "py_str (PStr s) = s"

definition hex_digit :: "nat \<Rightarrow> char" where
  "hex_digit d = ''0123456789abcdef'' ! (d mod 16)"

text \<open>
  \<open>repr\<close> of a string: single quotes, unless the string has a single quote and no double
  quote; the quote in use and the backslash are escaped with a backslash; tab, newline and
  carriage return are written as a backslash and \<open>t\<close>, \<open>n\<close> or \<open>r\<close>; any other code point that
  is not printable (below 32, 127 to 160, and 173) is written as a backslash, \<open>x\<close> and two
  hexadecimal digits.
\<close>

definition repr_char :: "char \<Rightarrow> char \<Rightarrow> string" where
  "repr_char quote c =
     (let n = of_char c :: nat in
      if c = quote \<or> c = CHR 0x5C then [CHR 0x5C, c]
      else if n = 9 then [CHR 0x5C, CHR ''t'']
      else if n = 10 then [CHR 0x5C, CHR ''n'']
      else if n = 13 then [CHR 0x5C, CHR ''r'']
      else if n < 32 \<or> (127 \<le> n \<and> n \<le> 160) \<or> n = 173
        then [CHR 0x5C, CHR ''x'', hex_digit (n div 16), hex_digit n]
      else [c])"



definition py_repr_str :: "string \<Rightarrow> string" where
  "py_repr_str s =
     (let quote = (if CHR 0x27 \<in> set s \<and> CHR 0x22 \<notin> set s then CHR 0x22 else CHR 0x27)
      in quote # concat (map (repr_char quote) s) @ [quote])"


text \<open>\<open>d.get(k)\<close> (default \<open>None\<close>), \<open>d.get(k, default)\<close> and \<open>d[k]\<close>,
  which raises \<open>KeyError(k)\<close>; the text of a \<open>KeyError\<close> is the \<open>repr\<close> of the key.\<close>

definition dict_get :: "pydict \<Rightarrow> string \<Rightarrow> pyval" where
  "dict_get d k = (case map_of d k of None \<Rightarrow> PNone | Some v \<Rightarrow> v)"

definition dict_get_default :: "pydict \<Rightarrow> string \<Rightarrow> pyval \<Rightarrow> pyval" where
  "dict_get_default d k dflt = (case map_of d k of None \<Rightarrow> dflt | Some v \<Rightarrow> v)"

definition dict_index :: "pydict \<Rightarrow> string \<Rightarrow> pyexc + pyval" where
  "dict_index d k = (case map_of d k of None \<Rightarrow> Inl (PyExc KeyError (py_repr_str k)) | Some v \<Rightarrow> Inr v)"

section \<open>RobustAPIClient (runnables/05_practical_runnables.py)\<close>

text \<open>
  \<^verbatim>\<open>
  class RobustAPIClient(Runnable):
      def __init__(self, max_retries: int = 3):
          self.max_retries = max_retries
          self.metrics = {"calls": 0, "failures": 0, "retries": 0}
      def invoke(self, input, config=None):
          self.metrics["calls"] += 1
          for attempt in range(self.max_retries):
              try:
                  if random.random() < 0.3:
                      raise ConnectionError("Network timeout")
                  return {"status": "success",
                          "data": f"Processed: {input.get('data')}",
                          "attempt": attempt + 1}
              except ConnectionError as e:
                  self.metrics["retries"] += 1
                  if attempt == self.max_retries - 1:
                      self.metrics["failures"] += 1
                      return {"status": "error", "error": str(e),
                              "fallback": "Using cached data"}
                  time.sleep(0.1 * (2 ** attempt))
          return {"status": "error", "error": "Max retries exceeded"}
  \<close>
  The random source is a function \<open>rnd\<close>: \<open>rnd k\<close> says whether the \<open>k\<close>-th draw of this
  invocation is below 0.3. The effects are returned with the result: the updated metrics,
  the back-off exponents slept (a sleep of \<open>0.1 * 2 ** k\<close> seconds is recorded as \<open>k\<close>) and
  the number of draws made, one per attempt. The \<open>except\<close> clause names \<open>ConnectionError\<close>
  only, so the two other exceptions that the body can raise leave \<open>invoke\<close>: the
  \<open>ValueError\<close> of the f-string for an integer of more than 4300 digits, and the
  \<open>OverflowError\<close> of the back-off, which is raised inside the handler.
\<close>

record metrics =
  calls :: int
  failures :: int
  retries :: int

record RobustAPIClient =
  max_retries :: int
  metrics :: metrics

definition RobustAPIClient_init :: "int \<Rightarrow> RobustAPIClient" where
  "RobustAPIClient_init mr =
     \<lparr>max_retries = mr, metrics = \<lparr>calls = 0, failures = 0, retries = 0\<rparr>\<rparr>"

record effects =
  sleeps :: "nat list"
  draws :: nat

text \<open>
  The substitution \<open>{v}\<close> of an f-string is \<open>str(v)\<close>. Python refuses to convert an integer
  of more than 4300 decimal digits, the sign not counted.
\<close>

definition int_max_str_digits :: nat where
  "int_max_str_digits = 4300"

fun format_value :: "pyval \<Rightarrow> pyexc + string" where
  "format_value (PInt i) =
     (if int_max_str_digits < length (str_of_nat (nat \<bar>i\<bar>))
      then Inl (PyExc ValueError
             (''Exceeds the limit (4300 digits) for integer string conversion; '' @
              ''use sys.set_int_max_str_digits() to increase the limit''))
      else Inr (str_of_int i))"
| "format_value v = Inr (py_str v)"

text \<open>
  \<open>time.sleep(0.1 * (2 ** attempt))\<close>: the product is a float, and the conversion of
  \<open>2 ** attempt\<close> to a float fails from \<open>attempt = 1024\<close> on; \<open>time.sleep\<close> takes a delay
  that fits a signed 64-bit count of nanoseconds, which a tenth of a second times
  \<open>2 ** attempt\<close> (that is \<open>10 ** 8 * 2 ** attempt\<close> nanoseconds) exceeds from \<open>attempt = 37\<close>
  on. Both failures are an \<open>OverflowError\<close>; \<open>None\<close> means that the sleep returns.
\<close>

definition backoff :: "nat \<Rightarrow> pyexc option" where
  "backoff attempt =
     (if 1024 \<le> attempt then Some (PyExc OverflowError ''int too large to convert to float'')
      else if (2::int) ^ 63 \<le> 10 ^ 8 * 2 ^ attempt
        then Some (PyExc OverflowError ''timestamp out of range for platform time_t'')
      else None)"

text \<open>The three dictionary literals that \<open>invoke\<close> returns.\<close>

definition success_response :: "string \<Rightarrow> nat \<Rightarrow> pydict" where
  "success_response data attempt =
     [(''status'', PStr ''success''),
      (''data'', PStr (''Processed: '' @ data)),
      (''attempt'', PInt (int attempt + 1))]"

definition fallback_response :: "pyexc \<Rightarrow> pydict" where
  "fallback_response e =
     [(''status'', PStr ''error''), (''error'', PStr (exc_msg e)),
      (''fallback'', PStr ''Using cached data'')]"

definition exhausted_response :: pydict where
  "exhausted_response = [(''status'', PStr ''error''), (''error'', PStr ''Max retries exceeded'')]"

text \<open>
  The body of the \<open>try\<close>: one simulated API call. It raises \<open>ConnectionError\<close> when the draw
  fails; otherwise it builds the dictionary, and the f-string of its \<open>"data"\<close> entry may raise.
\<close>

definition api_call :: "pydict \<Rightarrow> bool \<Rightarrow> nat \<Rightarrow> pyexc + pydict" where
  "api_call input fails attempt =
     (if fails then Inl (PyExc ConnectionError ''Network timeout'')
      else case format_value (dict_get input ''data'') of
             Inl e \<Rightarrow> Inl e
           | Inr data \<Rightarrow> Inr (success_response data attempt))"

function retry_loop ::
  "int \<Rightarrow> pydict \<Rightarrow> (nat \<Rightarrow> bool) \<Rightarrow> nat \<Rightarrow> metrics \<Rightarrow> effects
     \<Rightarrow> (pyexc + pydict) \<times> metrics \<times> effects" where
  "retry_loop mr input rnd attempt m eff =
     (if int attempt < mr then
        (let eff1 = eff\<lparr>draws := draws eff + 1\<rparr> in
         case api_call input (rnd attempt) attempt of
           Inr r \<Rightarrow> (Inr r, m, eff1)
         | Inl e \<Rightarrow>
             if exc_cls e = ConnectionError then
               (let m1 = m\<lparr>retries := retries m + 1\<rparr> in
                if int attempt = mr - 1 then
                  (Inr (fallback_response e), m1\<lparr>failures := failures m1 + 1\<rparr>, eff1)
                else
                  (case backoff attempt of
                     Some e' \<Rightarrow> (Inl e', m1, eff1)
                   | None \<Rightarrow>
                       retry_loop mr input rnd (Suc attempt) m1
                         (eff1\<lparr>sleeps := sleeps eff1 @ [attempt]\<rparr>)))
             else (Inl e, m, eff1))
      else (Inr exhausted_response, m, eff))"
  by pat_completeness auto
termination
  by (relation "measure (\<lambda>(mr, input, rnd, attempt, m, eff). nat (mr - int attempt))") auto

declare retry_loop.simps [simp del]

definition invoke ::
  "RobustAPIClient \<Rightarrow> pydict \<Rightarrow> (nat \<Rightarrow> bool)
     \<Rightarrow> (pyexc + pydict) \<times> RobustAPIClient \<times> effects" where
  "invoke self input rnd =
     (let m0 = (metrics self)\<lparr>calls := calls (metrics self) + 1\<rparr>;
          (res, m, eff) = retry_loop (max_retries self) input rnd 0 m0 \<lparr>sleeps = [], draws = 0\<rparr>
      in (res, self\<lparr>metrics := m\<rparr>, eff))"

text \<open>
  The demo calls \<open>client.invoke\<close> repeatedly on one instance
  (\<^verbatim>\<open>for i in range(5): result = client.invoke({"data": f"request_{i}"})\<close>) and reads
  \<open>client.metrics\<close> afterwards. \<open>invoke_all\<close> takes the list of the invocations that are made
  on one client, each with its input and its own random draws, and returns the client as
  they leave it; the results of the calls are dropped. The counters are updated in place, so
  a call that raises, and whose exception the caller has caught, leaves them as they were
  when it raised.
\<close>

fun invoke_all :: "RobustAPIClient \<Rightarrow> (pydict \<times> (nat \<Rightarrow> bool)) list \<Rightarrow> RobustAPIClient" where
  "invoke_all self [] = self"
| "invoke_all self ((input, rnd) # reqs) = invoke_all (fst (snd (invoke self input rnd))) reqs"


section \<open>CachingRunnable (runnables/04_advanced_runnables.py)\<close>
















section \<open>The scripts' main functions\<close>

text \<open>
  Every script ends in a \<open>main\<close> of one shape (here chains/04_conditional_chains.py):
  \<^verbatim>\<open>
  def main():
      print(...banner...)
      if not os.getenv("GOOGLE_API_KEY"):
          print("Error: GOOGLE_API_KEY not found!")
          return
      try:
          basic_conditional()
          input("Press Enter to continue...")
          ...
          conditional_with_metadata()
          print(...summary...)
      except Exception as e:
          print(f"Error: {e}")
          import traceback
          traceback.print_exc()
  \<close>
  The scripts differ in their demo functions, in the prompt text (models/01_llm_example.py),
  in a second line after the missing-key message and a hint instead of the traceback (the
  three scripts under models/), in neither hint nor traceback (the four under prompts/), and
  in a check that numpy can be imported before the \<open>try\<close> (models/03_embeddings_example.py).
  A script is described by these data.
\<close>

datatype handler_kind = WithTraceback | WithKeyHint | Plain

record script =
  path :: string
  demos :: "string list"
  prompt :: string
  key_hint :: bool
  numpy_check :: bool
  handler :: handler_kind

text \<open>
  What \<open>main\<close> does is a list of events: lines printed (by kind, \<open>ErrorLine\<close> with the text
  of \<open>str(e)\<close>), reads of the environment, reads of standard input with their prompt, and
  calls of demo functions. What a demo function does inside is not part of \<open>main\<close>.
\<close>

datatype out_line =
    Banner | KeyMissing | KeyHint | NumpyMissing | Summary
  | ErrorLine string | Traceback pyexc | KeyInvalidHint

datatype event = Out out_line | GetEnv string | Stdin string | DemoCall string

datatype outcome = Returns | Raises pyexc

text \<open>
  The surroundings of a run: the environment as \<open>main\<close> finds it (the module has called
  \<open>load_dotenv()\<close> before), the outcome of each demo function, the outcome of the \<open>n\<close>-th
  \<open>input()\<close> (it raises \<open>EOFError\<close> on a closed input), and whether \<open>import numpy\<close>
  succeeds.
\<close>

record world =
  env :: "string \<rightharpoonup> string"
  demo_run :: "string \<Rightarrow> outcome"
  stdin_run :: "nat \<Rightarrow> outcome"
  numpy_importable :: bool

text \<open>\<open>os.getenv(name)\<close> is \<open>None\<close> or a string; \<open>not\<close> of it holds for \<open>None\<close> and for \<open>""\<close>.\<close>

definition getenv :: "world \<Rightarrow> string \<Rightarrow> string option" where
  "getenv w name = env w name"

fun falsy :: "string option \<Rightarrow> bool" where
  "falsy None = True"
| "falsy (Some s) = (s = [])"

text \<open>
  The body of the \<open>try\<close>: the demo functions in order, an \<open>input()\<close> between two of them,
  the summary after the last. It stops at the first exception, which it returns.
\<close>

fun try_body :: "script \<Rightarrow> world \<Rightarrow> string list \<Rightarrow> nat \<Rightarrow> event list \<times> pyexc option" where
  "try_body s w [] n = ([Out Summary], None)"
| "try_body s w [d] n =
     (case demo_run w d of
        Raises e \<Rightarrow> ([DemoCall d], Some e)
      | Returns \<Rightarrow> ([DemoCall d, Out Summary], None))"
| "try_body s w (d # d' # ds) n =
     (case demo_run w d of
        Raises e \<Rightarrow> ([DemoCall d], Some e)
      | Returns \<Rightarrow>
          (case stdin_run w n of
             Raises e \<Rightarrow> ([DemoCall d, Stdin (prompt s)], Some e)
           | Returns \<Rightarrow>
               (let (evs, r) = try_body s w (d' # ds) (Suc n)
                in (DemoCall d # Stdin (prompt s) # evs, r))))"

text \<open>The \<open>except Exception as e\<close> clause.\<close>

fun except_handler :: "script \<Rightarrow> pyexc \<Rightarrow> event list" where
  "except_handler s e =
     Out (ErrorLine (exc_msg e)) #
     (case handler s of
        WithTraceback \<Rightarrow> [Out (Traceback e)]
      | WithKeyHint \<Rightarrow> [Out KeyInvalidHint]
      | Plain \<Rightarrow> [])"

datatype result = Returned | Propagated pyexc

definition main :: "script \<Rightarrow> world \<Rightarrow> event list \<times> result" where
  "main s w =
     (if falsy (getenv w ''GOOGLE_API_KEY'') then
        ([Out Banner, GetEnv ''GOOGLE_API_KEY'', Out KeyMissing]
           @ (if key_hint s then [Out KeyHint] else []), Returned)
      else if numpy_check s \<and> \<not> numpy_importable w then
        ([Out Banner, GetEnv ''GOOGLE_API_KEY'', Out NumpyMissing], Returned)
      else
        (let (evs, r) = try_body s w (demos s) 0;
             before = [Out Banner, GetEnv ''GOOGLE_API_KEY''] @ evs
         in case r of
              None \<Rightarrow> (before, Returned)
            | Some e \<Rightarrow>
                if is_Exception (exc_cls e) then (before @ except_handler s e, Returned)
                else (before, Propagated e)))"

text \<open>The demo functions that a run has called, in order.\<close>

fun called :: "event list \<Rightarrow> string list" where
  "called [] = []"
| "called (DemoCall d # evs) = d # called evs"
| "called (ev # evs) = called evs"

text \<open>The scripts of the repository.\<close>

definition chains_01_lcel_basics :: script where
  "chains_01_lcel_basics =
     \<lparr>path = ''chains/01_lcel_basics.py'',
      demos =
       [''pipe_operator_basics'', ''execution_methods'', ''runnable_passthrough'',
        ''runnable_lambda'', ''assign_operator'', ''pick_operator'', ''chaining_with_parsers'',
        ''complex_chain_composition''],
      prompt = ''Press Enter to continue...'',
      key_hint = False, numpy_check = False, handler = WithTraceback\<rparr>"

definition chains_02_sequential_chains :: script where
  "chains_02_sequential_chains =
     \<lparr>path = ''chains/02_sequential_chains.py'',
      demos =
       [''simple_sequential'', ''preserving_intermediate_results'',
        ''data_transformation_pipeline'', ''context_passing'', ''error_handling_in_sequence'',
        ''multi_document_pipeline'', ''debugging_sequential_chain''],
      prompt = ''Press Enter to continue...'',
      key_hint = False, numpy_check = False, handler = WithTraceback\<rparr>"

definition chains_03_parallel_chains :: script where
  "chains_03_parallel_chains =
     \<lparr>path = ''chains/03_parallel_chains.py'',
      demos =
       [''basic_parallel'', ''parallel_vs_sequential'', ''multi_perspective_analysis'',
        ''parallel_with_passthrough'', ''merge_parallel_outputs'', ''conditional_parallel'',
        ''batch_parallel_processing''],
      prompt = ''Press Enter to continue...'',
      key_hint = False, numpy_check = False, handler = WithTraceback\<rparr>"

definition chains_04_conditional_chains :: script where
  "chains_04_conditional_chains =
     \<lparr>path = ''chains/04_conditional_chains.py'',
      demos =
       [''basic_conditional'', ''multi_condition_routing'', ''intent_based_routing'',
        ''fallback_chains'', ''context_based_branching'', ''dynamic_chain_selection'',
        ''multi_stage_conditional'', ''conditional_with_metadata''],
      prompt = ''Press Enter to continue...'',
      key_hint = False, numpy_check = False, handler = WithTraceback\<rparr>"

definition chains_05_practical_chains :: script where
  "chains_05_practical_chains =
     \<lparr>path = ''chains/05_practical_chains.py'',
      demos =
       [''document_processing_pipeline'', ''intelligent_support_router'',
        ''content_moderation_system'', ''data_extraction_pipeline'',
        ''multi_language_translator'', ''smart_research_assistant''],
      prompt = ''Press Enter to continue...'',
      key_hint = False, numpy_check = False, handler = WithTraceback\<rparr>"

definition models_01_llm_example :: script where
  "models_01_llm_example =
     \<lparr>path = ''models/01_llm_example.py'',
      demos =
       [''basic_llm_example'', ''creative_writing_example'', ''batch_processing_example'',
        ''streaming_example''],
      prompt = ''Press Enter to continue to next example...'',
      key_hint = True, numpy_check = False, handler = WithKeyHint\<rparr>"

definition models_02_chat_model_example :: script where
  "models_02_chat_model_example =
     \<lparr>path = ''models/02_chat_model_example.py'',
      demos =
       [''basic_chat_example'', ''conversation_with_context'', ''system_message_example'',
        ''streaming_chat_example'', ''interactive_chat_session'', ''compare_llm_vs_chat''],
      prompt = ''Press Enter to continue...'',
      key_hint = True, numpy_check = False, handler = WithKeyHint\<rparr>"

definition models_03_embeddings_example :: script where
  "models_03_embeddings_example =
     \<lparr>path = ''models/03_embeddings_example.py'',
      demos =
       [''basic_embedding_example'', ''similarity_comparison'', ''semantic_search_example'',
        ''practical_use_case'', ''batch_embedding_example''],
      prompt = ''Press Enter to continue...'',
      key_hint = True, numpy_check = True, handler = WithKeyHint\<rparr>"

definition prompts_01_basic_prompts :: script where
  "prompts_01_basic_prompts =
     \<lparr>path = ''prompts/01_basic_prompts.py'',
      demos =
       [''static_prompt_example'', ''dynamic_prompt_example'', ''prompt_template_basics'',
        ''prompt_template_with_formatting'', ''partial_variables_example'',
        ''template_from_string'', ''template_validation'', ''comparing_approaches''],
      prompt = ''Press Enter to continue...'',
      key_hint = False, numpy_check = False, handler = Plain\<rparr>"

definition prompts_02_chat_prompts :: script where
  "prompts_02_chat_prompts =
     \<lparr>path = ''prompts/02_chat_prompts.py'',
      demos =
       [''chat_prompt_template_basics'', ''system_message_personality'',
        ''multi_turn_conversation'', ''messages_placeholder_example'',
        ''conversation_with_context_window'', ''structured_chat_template'',
        ''chatbot_with_memory''],
      prompt = ''Press Enter to continue...'',
      key_hint = False, numpy_check = False, handler = Plain\<rparr>"

definition prompts_03_advanced_prompts :: script where
  "prompts_03_advanced_prompts =
     \<lparr>path = ''prompts/03_advanced_prompts.py'',
      demos =
       [''few_shot_prompting'', ''json_output_parser'', ''list_output_parser'',
        ''prompt_composition'', ''conditional_prompting'', ''pipeline_prompts'',
        ''advanced_output_parsing''],
      prompt = ''Press Enter to continue...'',
      key_hint = False, numpy_check = False, handler = Plain\<rparr>"

definition prompts_04_practical_examples :: script where
  "prompts_04_practical_examples =
     \<lparr>path = ''prompts/04_practical_examples.py'',
      demos =
       [''smart_faq_bot'', ''code_generator'', ''data_extraction_system'',
        ''multi_step_reasoning_bot'', ''content_personalizer'', ''practical_prompt_patterns''],
      prompt = ''Press Enter to continue...'',
      key_hint = False, numpy_check = False, handler = Plain\<rparr>"

definition runnables_01_runnable_interface :: script where
  "runnables_01_runnable_interface =
     \<lparr>path = ''runnables/01_runnable_interface.py'',
      demos =
       [''core_methods_example'', ''async_execution_example'', ''configuration_example'',
        ''schema_introspection_example'', ''method_chaining_example'',
        ''custom_runnable_example'', ''inspection_debugging_example'',
        ''config_propagation_example''],
      prompt = ''Press Enter to continue...'',
      key_hint = False, numpy_check = False, handler = WithTraceback\<rparr>"

definition runnables_02_runnable_sequence :: script where
  "runnables_02_runnable_sequence =
     \<lparr>path = ''runnables/02_runnable_sequence.py'',
      demos =
       [''pipe_operator_basics'', ''manual_sequence_creation'', ''automatic_coercion'',
        ''streaming_behavior'', ''error_propagation'', ''nested_sequences'',
        ''intermediate_access'', ''performance_optimization''],
      prompt = ''Press Enter to continue...'',
      key_hint = False, numpy_check = False, handler = WithTraceback\<rparr>"

definition runnables_03_runnable_parallel :: script where
  "runnables_03_runnable_parallel =
     \<lparr>path = ''runnables/03_runnable_parallel.py'',
      demos =
       [''basic_parallel'', ''dict_syntax'', ''performance_comparison'', ''nested_parallel'',
        ''error_handling'', ''parallel_with_passthrough'', ''dynamic_parallel'',
        ''batch_parallel''],
      prompt = ''Press Enter to continue...'',
      key_hint = False, numpy_check = False, handler = WithTraceback\<rparr>"

definition runnables_04_advanced_runnables :: script where
  "runnables_04_advanced_runnables =
     \<lparr>path = ''runnables/04_advanced_runnables.py'',
      demos =
       [''runnable_generator_example'', ''runnable_binding_example'', ''fallbacks_example'',
        ''retry_example'', ''custom_runnable_class'', ''runnable_pick_example'',
        ''config_deep_dive'', ''production_patterns''],
      prompt = ''Press Enter to continue...'',
      key_hint = False, numpy_check = False, handler = WithTraceback\<rparr>"

definition runnables_05_practical_runnables :: script where
  "runnables_05_practical_runnables =
     \<lparr>path = ''runnables/05_practical_runnables.py'',
      demos =
       [''custom_text_processor'', ''streaming_chat_system'', ''robust_api_client'',
        ''batch_document_processor'', ''async_pipeline'', ''monitoring_wrapper''],
      prompt = ''Press Enter to continue...'',
      key_hint = False, numpy_check = False, handler = WithTraceback\<rparr>"

definition structured_output_01_with_structured_output :: script where
  "structured_output_01_with_structured_output =
     \<lparr>path = ''structured_output/01_with_structured_output.py'',
      demos =
       [''basic_pydantic_example'', ''pydantic_with_validation'', ''using_enums'',
        ''complex_nested_structure'', ''using_typeddict'', ''using_json_schema'',
        ''custom_validators'', ''list_extraction''],
      prompt = ''Press Enter to continue...'',
      key_hint = False, numpy_check = False, handler = WithTraceback\<rparr>"

definition structured_output_02_output_parsers :: script where
  "structured_output_02_output_parsers =
     \<lparr>path = ''structured_output/02_output_parsers.py'',
      demos =
       [''pydantic_output_parser'', ''json_output_parser'', ''structured_output_parser'',
        ''string_output_parser'', ''list_output_parser'', ''datetime_output_parser'',
        ''boolean_output_parser'', ''enum_output_parser'', ''comparing_parsers''],
      prompt = ''Press Enter to continue...'',
      key_hint = False, numpy_check = False, handler = WithTraceback\<rparr>"

definition structured_output_03_advanced_structured :: script where
  "structured_output_03_advanced_structured =
     \<lparr>path = ''structured_output/03_advanced_structured.py'',
      demos =
       [''parser_in_chain'', ''output_fixing_parser'', ''retry_output_parser'',
        ''custom_output_parser'', ''error_handling_strategies'', ''pattern_injection'',
        ''combining_parsers'', ''validation_and_fallbacks''],
      prompt = ''Press Enter to continue...'',
      key_hint = False, numpy_check = False, handler = WithTraceback\<rparr>"

definition structured_output_04_practical_structured :: script where
  "structured_output_04_practical_structured =
     \<lparr>path = ''structured_output/04_practical_structured.py'',
      demos =
       [''resume_parser'', ''invoice_processor'', ''review_analyzer'',
        ''meeting_notes_generator'', ''form_filler'', ''data_migration''],
      prompt = ''Press Enter to continue...'',
      key_hint = False, numpy_check = False, handler = WithTraceback\<rparr>"

definition scripts :: "script list" where
  "scripts =
     [chains_01_lcel_basics,
      chains_02_sequential_chains,
      chains_03_parallel_chains,
      chains_04_conditional_chains,
      chains_05_practical_chains,
      models_01_llm_example,
      models_02_chat_model_example,
      models_03_embeddings_example,
      prompts_01_basic_prompts,
      prompts_02_chat_prompts,
      prompts_03_advanced_prompts,
      prompts_04_practical_examples,
      runnables_01_runnable_interface,
      runnables_02_runnable_sequence,
      runnables_03_runnable_parallel,
      runnables_04_advanced_runnables,
      runnables_05_practical_runnables,
      structured_output_01_with_structured_output,
      structured_output_02_output_parsers,
      structured_output_03_advanced_structured,
      structured_output_04_practical_structured]"


definition world_value_error :: world where
  "world_value_error =
     \<lparr>env = [''GOOGLE_API_KEY'' \<mapsto> ''secret''],
      demo_run = (\<lambda>d. if d = ''semantic_search_example''
                       then Raises (PyExc ValueError ''shapes not aligned'') else Returns),
      stdin_run = (\<lambda>n. Returns), numpy_importable = True\<rparr>"

definition world_interrupt :: world where
  "world_interrupt =
     \<lparr>env = [''GOOGLE_API_KEY'' \<mapsto> ''secret''],
      demo_run = (\<lambda>d. if d = ''intent_based_routing''
                       then Raises (PyExc KeyboardInterrupt []) else Returns),
      stdin_run = (\<lambda>n. Returns), numpy_importable = True\<rparr>"

section \<open>Validators of the schema classes (structured_output/)\<close>



definition py_isupper_char :: "char \<Rightarrow> bool" where
  "py_isupper_char c =
     (let n = of_char c :: nat in
        (65 \<le> n \<and> n \<le> 90) \<or> (192 \<le> n \<and> n \<le> 214) \<or> (216 \<le> n \<and> n \<le> 222))"








section \<open>Helper functions passed to the framework\<close>

text \<open>
  \<open>len(v)\<close> and \<open>v.split()\<close> for a value taken out of a dictionary: both are defined on
  strings, and raise on \<open>None\<close>, a \<open>bool\<close> or an \<open>int\<close>.
\<close>

fun type_name :: "pyval \<Rightarrow> string" where
  "type_name PNone = ''NoneType''"
| "type_name (PBool b) = ''bool''"
| "type_name (PInt i) = ''int''"
| "type_name (PStr s) = ''str''"

fun py_len :: "pyval \<Rightarrow> pyexc + nat" where
  "py_len (PStr s) = Inr (length s)"
| "py_len v = Inl (PyExc TypeError (''object of type '' @ py_repr_str (type_name v) @ '' has no len()''))"

text \<open>
  \<open>str.split()\<close> without arguments splits at runs of whitespace and returns no empty word.
  The whitespace code points below 256 are 9 to 13, 28 to 32, 133 and 160.
\<close>

definition py_isspace :: "char \<Rightarrow> bool" where
  "py_isspace c =
     (let n = of_char c :: nat in (9 \<le> n \<and> n \<le> 13) \<or> (28 \<le> n \<and> n \<le> 32) \<or> n = 133 \<or> n = 160)"

fun split_ws :: "string \<Rightarrow> string \<Rightarrow> string list" where
  "split_ws cur [] = (if cur = [] then [] else [cur])"
| "split_ws cur (c # cs) =
     (if py_isspace c then (if cur = [] then split_ws [] cs else cur # split_ws [] cs)
      else split_ws (cur @ [c]) cs)"

definition py_split :: "string \<Rightarrow> string list" where
  "py_split s = split_ws [] s"

text \<open>The exception of \<open>v.name\<close> for a value \<open>v\<close> whose type has no attribute \<open>name\<close>.\<close>

definition no_attribute :: "string \<Rightarrow> string \<Rightarrow> pyexc" where
  "no_attribute tn name =
     PyExc AttributeError (py_repr_str tn @ '' object has no attribute '' @ py_repr_str name)"

fun py_split_val :: "pyval \<Rightarrow> pyexc + string list" where
  "py_split_val (PStr s) = Inr (py_split s)"
| "py_split_val v = Inl (no_attribute (type_name v) ''split'')"

text \<open>
  chains/04_conditional_chains.py, the condition of a branch:
  \<^verbatim>\<open>
  def is_long(x: Dict[str, Any]) -> bool:
      return len(x.get("text", "")) > 50
  \<close>
\<close>

definition is_long :: "pydict \<Rightarrow> pyexc + bool" where
  "is_long x =
     (case py_len (dict_get_default x ''text'' (PStr [])) of
        Inl e \<Rightarrow> Inl e
      | Inr n \<Rightarrow> Inr (n > 50))"

text \<open>
  runnables/04_advanced_runnables.py:
  \<^verbatim>\<open>
  pick_user_text = RunnableLambda(lambda x: {"user": x["user"], "text": x["text"]})
  \<close>
\<close>

definition pick_user_text :: "pydict \<Rightarrow> pyexc + pydict" where
  "pick_user_text x =
     (case dict_index x ''user'' of
        Inl e \<Rightarrow> Inl e
      | Inr u \<Rightarrow>
          (case dict_index x ''text'' of
             Inl e \<Rightarrow> Inl e
           | Inr t \<Rightarrow> Inr [(''user'', u), (''text'', t)]))"

text \<open>
  runnables/04_advanced_runnables.py, the generator wrapped in a \<open>RunnableGenerator\<close>:
  \<^verbatim>\<open>
  def custom_streamer(input: Dict[str, Any]) -> Iterator[str]:
      """Generate chunks progressively"""
      text = input.get("text", "")
      words = text.split()
      for i, word in enumerate(words):
          yield f"{word} "
          time.sleep(0.1)
  streaming_runnable = RunnableGenerator(custom_streamer)
  for chunk in streaming_runnable.stream({"text": "Hello world from custom generator"}):
  \<close>
  The generator is finite; it is modelled by the list of the chunks it yields, or by the
  exception that its first step raises. The sleep between two chunks is left out. The
  function is written for a dictionary, but \<open>RunnableGenerator\<close>, which is not part of the
  repository, hands the function it wraps an iterator over the inputs. The argument is
  therefore a dictionary or an iterator object, given by the name of its type.
\<close>

datatype stream_arg = DictArg pydict | IteratorArg string

fun custom_streamer :: "stream_arg \<Rightarrow> pyexc + string list" where
  "custom_streamer (IteratorArg tn) = Inl (no_attribute tn ''get'')"
| "custom_streamer (DictArg input) =
     (case py_split_val (dict_get_default input ''text'' (PStr [])) of
        Inl e \<Rightarrow> Inl e
      | Inr words \<Rightarrow> Inr (map (\<lambda>word. word @ '' '') words))"

text \<open>
  runnables/01_runnable_interface.py, a subclass of \<open>Runnable\<close> that overrides \<open>invoke\<close>,
  \<open>batch\<close> and \<open>stream\<close>, and is called directly:
  \<^verbatim>\<open>
  class TextAnalyzer(Runnable):
      def invoke(self, input, config=None):
          text = input.get("text", "")
          return {
              "original": text,
              "word_count": len(text.split()),
              "char_count": len(text),
              "uppercase_count": sum(1 for c in text if c.isupper()),
              "sentence_count": text.count('.') + text.count('!') + text.count('?')
          }
      def batch(self, inputs, config=None):
          return [self.invoke(input, config) for input in inputs]
      def stream(self, input, config=None):
          result = self.invoke(input, config)
          for key, value in result.items():
              yield {key: value}
  \<close>
  For a value that is not a string the first entry to fail is \<open>"word_count"\<close>, on
  \<open>text.split\<close>. The list comprehension of \<open>batch\<close> stops at the first input on which
  \<open>invoke\<close> raises. The generator \<open>stream\<close> is the list of its chunks, one dictionary with a
  single entry for every entry of the result, or the exception of \<open>invoke\<close>.
\<close>

definition TextAnalyzer_invoke :: "pydict \<Rightarrow> pyexc + pydict" where
  "TextAnalyzer_invoke input =
     (case dict_get_default input ''text'' (PStr []) of
        PStr s \<Rightarrow>
          Inr [(''original'', PStr s),
               (''word_count'', PInt (int (length (py_split s)))),
               (''char_count'', PInt (int (length s))),
               (''uppercase_count'', PInt (int (length (filter py_isupper_char s)))),
               (''sentence_count'',
                  PInt (int (count_list s (CHR ''.'') + count_list s (CHR ''!'')
                             + count_list s (CHR ''?''))))]
      | v \<Rightarrow> Inl (no_attribute (type_name v) ''split''))"

fun TextAnalyzer_batch :: "pydict list \<Rightarrow> pyexc + pydict list" where
  "TextAnalyzer_batch [] = Inr []"
| "TextAnalyzer_batch (input # inputs) =
     (case TextAnalyzer_invoke input of
        Inl e \<Rightarrow> Inl e
      | Inr r \<Rightarrow>
          (case TextAnalyzer_batch inputs of
             Inl e \<Rightarrow> Inl e
           | Inr rs \<Rightarrow> Inr (r # rs)))"

definition TextAnalyzer_stream :: "pydict \<Rightarrow> pyexc + pydict list" where
  "TextAnalyzer_stream input =
     (case TextAnalyzer_invoke input of
        Inl e \<Rightarrow> Inl e
      | Inr result \<Rightarrow> Inr (map (\<lambda>kv. [kv]) result))"

section \<open>Properties of RobustAPIClient\<close>

text \<open>
  The back-off raises from attempt 37 on, and formatting raises \<open>ValueError\<close> only.
\<close>

lemma backoff_None_iff: "backoff a = None \<longleftrightarrow> a < 37"
proof (cases "a < 37")
  case True
  then have "(2::int) ^ a \<le> 2 ^ 36" by (intro power_increasing) simp_all
  then have "(10::int) ^ 8 * 2 ^ a \<le> 10 ^ 8 * 2 ^ 36" by simp
  also have "\<dots> < (2::int) ^ 63" by simp
  finally show ?thesis using True by (simp add: backoff_def)
next
  case False
  then have "(2::int) ^ 37 \<le> 2 ^ a" by (intro power_increasing) simp_all
  then have "(10::int) ^ 8 * 2 ^ 37 \<le> 10 ^ 8 * 2 ^ a" by simp
  moreover have "(2::int) ^ 63 \<le> 10 ^ 8 * 2 ^ 37" by simp
  ultimately have "(2::int) ^ 63 \<le> 10 ^ 8 * 2 ^ a" by (rule order_trans[rotated])
  with False show ?thesis by (simp add: backoff_def)
qed

lemma backoff_Some: "backoff a = Some e \<Longrightarrow> exc_cls e = OverflowError"
  by (auto simp: backoff_def split: if_splits)

lemma format_value_Inl: "format_value v = Inl e \<Longrightarrow> exc_cls e = ValueError"
  by (cases v) (auto split: if_splits)

text \<open>
  The loop from attempt \<open>a\<close> on ends in one of four ways: at the first draw \<open>k\<close> that does
  not fail, reached after the back-offs of the attempts before it, with the success response
  or the exception of the formatting; in the back-off of attempt 37, when the draws up to
  there all failed and attempt 37 is not the last; with the fallback response after the last
  attempt, when every draw failed; or without any attempt.
\<close>

lemma retry_loop_spec:
  "retry_loop mr input rnd a m eff = (res, m', eff') \<Longrightarrow>
     (\<exists>k. a \<le> k \<and> int k < mr \<and> \<not> rnd k
          \<and> (\<forall>j. a \<le> j \<and> j < k \<longrightarrow> rnd j \<and> backoff j = None)
          \<and> res = (case format_value (dict_get input ''data'') of
                      Inl e \<Rightarrow> Inl e | Inr d \<Rightarrow> Inr (success_response d k))
          \<and> m' = m\<lparr>retries := retries m + int (k - a)\<rparr>
          \<and> eff' = \<lparr>sleeps = sleeps eff @ [a..<k], draws = draws eff + (k - a) + 1\<rparr>)
   \<or> (\<exists>k e. a \<le> k \<and> int k < mr - 1 \<and> (\<forall>j. a \<le> j \<and> j \<le> k \<longrightarrow> rnd j)
          \<and> (\<forall>j. a \<le> j \<and> j < k \<longrightarrow> backoff j = None) \<and> backoff k = Some e
          \<and> res = Inl e
          \<and> m' = m\<lparr>retries := retries m + int (k - a) + 1\<rparr>
          \<and> eff' = \<lparr>sleeps = sleeps eff @ [a..<k], draws = draws eff + (k - a) + 1\<rparr>)
   \<or> ((\<forall>j. a \<le> j \<and> int j < mr \<longrightarrow> rnd j)
          \<and> (\<forall>j. a \<le> j \<and> int j < mr - 1 \<longrightarrow> backoff j = None) \<and> int a < mr
          \<and> res = Inr (fallback_response (PyExc ConnectionError ''Network timeout''))
          \<and> m' = m\<lparr>retries := retries m + (mr - int a), failures := failures m + 1\<rparr>
          \<and> eff' = \<lparr>sleeps = sleeps eff @ [a..<nat mr - 1], draws = draws eff + nat (mr - int a)\<rparr>)
   \<or> (\<not> int a < mr \<and> res = Inr exhausted_response \<and> m' = m \<and> eff' = eff)"
  (is "_ \<Longrightarrow> ?S mr input rnd a m eff \<or> ?O mr input rnd a m eff \<or> ?F mr input rnd a m eff \<or> ?E mr input rnd a m eff")
proof (induction mr input rnd a m eff rule: retry_loop.induct)
  case (1 mr input rnd attempt m eff)
  show ?case
  proof (cases "int attempt < mr")
    case False
    with "1.prems" show ?thesis by (simp add: retry_loop.simps)
  next
    case lt: True
    show ?thesis
    proof (cases "rnd attempt")
      case False
      have "res = (case format_value (dict_get input ''data'') of
                      Inl e \<Rightarrow> Inl e | Inr d \<Rightarrow> Inr (success_response d attempt))
          \<and> m' = m \<and> eff' = eff\<lparr>draws := draws eff + 1\<rparr>"
      proof (cases "format_value (dict_get input ''data'')")
        case (Inl e)
        from format_value_Inl[OF this] have "exc_cls e \<noteq> ConnectionError" by simp
        with Inl False lt "1.prems" show ?thesis
          by (simp add: retry_loop.simps[of mr input rnd attempt] api_call_def Let_def)
      next
        case (Inr d)
        with False lt "1.prems" show ?thesis
          by (simp add: retry_loop.simps[of mr input rnd attempt] api_call_def Let_def)
      qed
      then have "res = (case format_value (dict_get input ''data'') of
                      Inl e \<Rightarrow> Inl e | Inr d \<Rightarrow> Inr (success_response d attempt))"
        "m' = m" "eff' = eff\<lparr>draws := draws eff + 1\<rparr>" by simp_all
      with lt False have "?S mr input rnd attempt m eff"
        by (intro exI[of _ attempt]) auto
      then show ?thesis by blast
    next
      case fails: True
      show ?thesis
      proof (cases "int attempt = mr - 1")
        case True
        with lt fails "1.prems" have "res = Inr (fallback_response (PyExc ConnectionError ''Network timeout''))"
          "m' = m\<lparr>retries := retries m + 1, failures := failures m + 1\<rparr>"
          "eff' = eff\<lparr>draws := draws eff + 1\<rparr>"
          by (auto simp: retry_loop.simps api_call_def Let_def)
        moreover have "\<forall>j. attempt \<le> j \<and> int j < mr \<longrightarrow> rnd j"
          using True fails by (auto simp: le_less)
        moreover have "\<forall>j. attempt \<le> j \<and> int j < mr - 1 \<longrightarrow> backoff j = None"
          using True by auto
        moreover have "nat mr - 1 = attempt" "nat (mr - int attempt) = 1" using True by auto
        ultimately have "?F mr input rnd attempt m eff" using lt True by auto
        then show ?thesis by blast
      next
        case notlast: False
        define m1 where "m1 = m\<lparr>retries := retries m + 1\<rparr>"
        have lt': "int (Suc attempt) < mr" using lt notlast by auto
        show ?thesis
        proof (cases "backoff attempt")
          case (Some e)
          with lt fails notlast "1.prems" have "res = Inl e" "m' = m1"
            "eff' = eff\<lparr>draws := draws eff + 1\<rparr>"
            by (auto simp: retry_loop.simps api_call_def Let_def m1_def)
          moreover have "int attempt < mr - 1" using lt notlast by auto
          moreover have "\<forall>j. attempt \<le> j \<and> j \<le> attempt \<longrightarrow> rnd j" using fails by auto
          ultimately have "?O mr input rnd attempt m eff" using Some
            by (intro exI[of _ attempt] exI[of _ e]) (auto simp: m1_def)
          then show ?thesis by blast
        next
          case None
          define eff1 where "eff1 = eff\<lparr>draws := draws eff + 1, sleeps := sleeps eff @ [attempt]\<rparr>"
          have rec: "retry_loop mr input rnd (Suc attempt) m1 eff1 = (res, m', eff')"
            using "1.prems" lt fails notlast None
            by (simp add: retry_loop.simps[of mr input rnd attempt] api_call_def Let_def m1_def eff1_def)
          have IH: "?S mr input rnd (Suc attempt) m1 eff1 \<or> ?O mr input rnd (Suc attempt) m1 eff1
                    \<or> ?F mr input rnd (Suc attempt) m1 eff1 \<or> ?E mr input rnd (Suc attempt) m1 eff1"
            using "1.IH"[of "eff\<lparr>draws := draws eff + 1\<rparr>" "PyExc ConnectionError ''Network timeout''" m1]
              rec lt fails notlast None
            by (simp add: api_call_def m1_def eff1_def)
          have step: "\<And>P. (\<forall>j. Suc attempt \<le> j \<and> P j \<longrightarrow> rnd j) \<Longrightarrow> (\<forall>j. attempt \<le> j \<and> P j \<longrightarrow> rnd j)"
            using fails by (metis le_antisym not_less_eq_eq)
          have stepb: "\<And>P. (\<forall>j. Suc attempt \<le> j \<and> P j \<longrightarrow> backoff j = None)
              \<Longrightarrow> (\<forall>j. attempt \<le> j \<and> P j \<longrightarrow> backoff j = None)"
            using None by (metis le_antisym not_less_eq_eq)
          from IH show ?thesis
          proof (elim disjE)
            assume "?S mr input rnd (Suc attempt) m1 eff1"
            then obtain k where k: "Suc attempt \<le> k" "int k < mr" "\<not> rnd k"
              "\<forall>j. Suc attempt \<le> j \<and> j < k \<longrightarrow> rnd j \<and> backoff j = None"
              and r: "res = (case format_value (dict_get input ''data'') of
                      Inl e \<Rightarrow> Inl e | Inr d \<Rightarrow> Inr (success_response d k))"
              "m' = m1\<lparr>retries := retries m1 + int (k - Suc attempt)\<rparr>"
              "eff' = \<lparr>sleeps = sleeps eff1 @ [Suc attempt..<k], draws = draws eff1 + (k - Suc attempt) + 1\<rparr>"
              by blast
            have "[attempt..<k] = attempt # [Suc attempt..<k]" using k(1) by (simp add: upt_conv_Cons)
            moreover have "\<forall>j. attempt \<le> j \<and> j < k \<longrightarrow> rnd j \<and> backoff j = None"
              using k(4) fails None by (metis le_antisym not_less_eq_eq)
            ultimately have "?S mr input rnd attempt m eff" using k r
              by (intro exI[of _ k]) (auto simp: m1_def eff1_def)
            then show ?thesis by blast
          next
            assume "?O mr input rnd (Suc attempt) m1 eff1"
            then obtain k e where k: "Suc attempt \<le> k" "int k < mr - 1"
              "\<forall>j. Suc attempt \<le> j \<and> j \<le> k \<longrightarrow> rnd j"
              "\<forall>j. Suc attempt \<le> j \<and> j < k \<longrightarrow> backoff j = None" "backoff k = Some e"
              and r: "res = Inl e"
              "m' = m1\<lparr>retries := retries m1 + int (k - Suc attempt) + 1\<rparr>"
              "eff' = \<lparr>sleeps = sleeps eff1 @ [Suc attempt..<k], draws = draws eff1 + (k - Suc attempt) + 1\<rparr>"
              by blast
            have "[attempt..<k] = attempt # [Suc attempt..<k]" using k(1) by (simp add: upt_conv_Cons)
            moreover have "\<forall>j. attempt \<le> j \<and> j \<le> k \<longrightarrow> rnd j" using step[OF k(3)] .
            moreover have "\<forall>j. attempt \<le> j \<and> j < k \<longrightarrow> backoff j = None" using stepb[OF k(4)] .
            ultimately have "?O mr input rnd attempt m eff" using k r
              by (intro exI[of _ k] exI[of _ e]) (auto simp: m1_def eff1_def)
            then show ?thesis by blast
          next
            assume f: "?F mr input rnd (Suc attempt) m1 eff1"
            then have a: "\<forall>j. Suc attempt \<le> j \<and> int j < mr \<longrightarrow> rnd j"
              and b: "\<forall>j. Suc attempt \<le> j \<and> int j < mr - 1 \<longrightarrow> backoff j = None"
              and r: "res = Inr (fallback_response (PyExc ConnectionError ''Network timeout''))"
              "m' = m1\<lparr>retries := retries m1 + (mr - int (Suc attempt)), failures := failures m1 + 1\<rparr>"
              "eff' = \<lparr>sleeps = sleeps eff1 @ [Suc attempt..<nat mr - 1], draws = draws eff1 + nat (mr - int (Suc attempt))\<rparr>"
              by blast+
            have "[attempt..<nat mr - 1] = attempt # [Suc attempt..<nat mr - 1]"
              using lt' by (simp add: upt_conv_Cons)
            moreover have "\<forall>j. attempt \<le> j \<and> int j < mr \<longrightarrow> rnd j" using step[OF a] .
            moreover have "\<forall>j. attempt \<le> j \<and> int j < mr - 1 \<longrightarrow> backoff j = None" using stepb[OF b] .
            moreover have "nat (mr - int attempt) = Suc (nat (mr - int (Suc attempt)))" using lt' by auto
            ultimately have "?F mr input rnd attempt m eff" using r lt
              by (auto simp: m1_def eff1_def)
            then show ?thesis by blast
          next
            assume "?E mr input rnd (Suc attempt) m1 eff1"
            with lt' show ?thesis by simp
          qed
        qed
      qed
    qed
  qed
qed

text \<open>The same four cases for \<open>invoke\<close>, which starts the loop at attempt 0.\<close>

lemma invoke_cases:
  "(\<exists>k. int k < max_retries self \<and> k \<le> 37 \<and> \<not> rnd k \<and> (\<forall>j<k. rnd j)
        \<and> invoke self input rnd =
            (case format_value (dict_get input ''data'') of
               Inl e \<Rightarrow> Inl e | Inr d \<Rightarrow> Inr (success_response d k),
             self\<lparr>metrics := (metrics self)\<lparr>calls := calls (metrics self) + 1,
                                             retries := retries (metrics self) + int k\<rparr>\<rparr>,
             \<lparr>sleeps = [0..<k], draws = k + 1\<rparr>))
   \<or> (39 \<le> max_retries self \<and> (\<forall>j<38. rnd j)
        \<and> invoke self input rnd =
            (Inl (PyExc OverflowError ''timestamp out of range for platform time_t''),
             self\<lparr>metrics := (metrics self)\<lparr>calls := calls (metrics self) + 1,
                                             retries := retries (metrics self) + 38\<rparr>\<rparr>,
             \<lparr>sleeps = [0..<37], draws = 38\<rparr>))
   \<or> ((\<forall>j. int j < max_retries self \<longrightarrow> rnd j) \<and> 0 < max_retries self \<and> max_retries self \<le> 38
        \<and> invoke self input rnd =
            (Inr (fallback_response (PyExc ConnectionError ''Network timeout'')),
             self\<lparr>metrics := (metrics self)\<lparr>calls := calls (metrics self) + 1,
                                             retries := retries (metrics self) + max_retries self,
                                             failures := failures (metrics self) + 1\<rparr>\<rparr>,
             \<lparr>sleeps = [0..<nat (max_retries self) - 1], draws = nat (max_retries self)\<rparr>))
   \<or> (max_retries self \<le> 0
        \<and> invoke self input rnd =
            (Inr exhausted_response,
             self\<lparr>metrics := (metrics self)\<lparr>calls := calls (metrics self) + 1\<rparr>\<rparr>,
             \<lparr>sleeps = [], draws = 0\<rparr>))"
  (is "?S \<or> ?O \<or> ?F \<or> ?E")
proof -
  define m0 where "m0 = (metrics self)\<lparr>calls := calls (metrics self) + 1\<rparr>"
  define mr where "mr = max_retries self"
  obtain res m eff where
    loop: "retry_loop mr input rnd 0 m0 \<lparr>sleeps = [], draws = 0\<rparr> = (res, m, eff)"
    by (cases "retry_loop mr input rnd 0 m0 \<lparr>sleeps = [], draws = 0\<rparr>") auto
  then have inv: "invoke self input rnd = (res, self\<lparr>metrics := m\<rparr>, eff)"
    by (simp add: invoke_def m0_def mr_def)
  from retry_loop_spec[OF loop] show ?thesis
  proof (elim disjE exE conjE)
    fix k
    assume k: "int k < mr" "\<not> rnd k" "\<forall>j. 0 \<le> j \<and> j < k \<longrightarrow> rnd j \<and> backoff j = None"
      and r: "res = (case format_value (dict_get input ''data'') of
                      Inl e \<Rightarrow> Inl e | Inr d \<Rightarrow> Inr (success_response d k))"
        "m = m0\<lparr>retries := retries m0 + int (k - 0)\<rparr>"
        "eff = \<lparr>sleeps = sleeps \<lparr>sleeps = [], draws = 0\<rparr> @ [0..<k],
                draws = draws \<lparr>sleeps = [], draws = 0\<rparr> + (k - 0) + 1\<rparr>"
    have "k \<le> 37"
    proof (rule ccontr)
      assume "\<not> k \<le> 37"
      then have "37 < k" by simp
      with k(3) have "backoff 37 = None" by blast
      then show False by (simp add: backoff_None_iff)
    qed
    with k r have ?S unfolding inv
      by (intro exI[of _ k]) (auto simp: m0_def mr_def)
    then show ?thesis by blast
  next
    fix k e
    assume k: "int k < mr - 1" "\<forall>j. 0 \<le> j \<and> j \<le> k \<longrightarrow> rnd j"
      "\<forall>j. 0 \<le> j \<and> j < k \<longrightarrow> backoff j = None" "backoff k = Some e"
      and r: "res = Inl e" "m = m0\<lparr>retries := retries m0 + int (k - 0) + 1\<rparr>"
        "eff = \<lparr>sleeps = sleeps \<lparr>sleeps = [], draws = 0\<rparr> @ [0..<k],
                draws = draws \<lparr>sleeps = [], draws = 0\<rparr> + (k - 0) + 1\<rparr>"
    have "\<not> k < 37" using k(4) backoff_None_iff[of k] by simp
    moreover have "\<not> 37 < k"
    proof
      assume "37 < k"
      with k(3) have "backoff 37 = None" by blast
      then show False by (simp add: backoff_None_iff)
    qed
    ultimately have k37: "k = 37" by simp
    have e: "e = PyExc OverflowError ''timestamp out of range for platform time_t''"
      using k(4) unfolding k37 by (simp add: backoff_def)
    have "?O" unfolding inv using k(1,2) r
      by (auto simp: k37 e m0_def mr_def)
    then show ?thesis by blast
  next
    assume a: "\<forall>j. 0 \<le> j \<and> int j < mr \<longrightarrow> rnd j"
      "\<forall>j. 0 \<le> j \<and> int j < mr - 1 \<longrightarrow> backoff j = None" "int 0 < mr"
      and r: "res = Inr (fallback_response (PyExc ConnectionError ''Network timeout''))"
        "m = m0\<lparr>retries := retries m0 + (mr - int 0), failures := failures m0 + 1\<rparr>"
        "eff = \<lparr>sleeps = sleeps \<lparr>sleeps = [], draws = 0\<rparr> @ [0..<nat mr - 1],
                draws = draws \<lparr>sleeps = [], draws = 0\<rparr> + nat (mr - int 0)\<rparr>"
    have "mr \<le> 38"
    proof (rule ccontr)
      assume "\<not> mr \<le> 38"
      then have "int 37 < mr - 1" by simp
      with a(2) have "backoff 37 = None" by blast
      then show False by (simp add: backoff_None_iff)
    qed
    with a r have ?F unfolding inv by (auto simp: m0_def mr_def)
    then show ?thesis by blast
  next
    assume "\<not> int 0 < mr" "res = Inr exhausted_response" "m = m0"
      "eff = \<lparr>sleeps = [], draws = 0\<rparr>"
    then have ?E unfolding inv by (auto simp: m0_def mr_def)
    then show ?thesis by blast
  qed
qed

lemma first_failure_unique:
  "\<not> rnd k \<Longrightarrow> \<forall>j<k. rnd j \<Longrightarrow> \<not> rnd k' \<Longrightarrow> \<forall>j<k'. rnd j \<Longrightarrow> k' = (k::nat)"
  by (meson linorder_neqE_nat)

lemma invoke_success_case:
  assumes "int k < max_retries self" "k \<le> 37" "\<not> rnd k" "\<forall>j<k. rnd j"
  shows "invoke self input rnd =
            (case format_value (dict_get input ''data'') of
               Inl e \<Rightarrow> Inl e | Inr d \<Rightarrow> Inr (success_response d k),
             self\<lparr>metrics := (metrics self)\<lparr>calls := calls (metrics self) + 1,
                                             retries := retries (metrics self) + int k\<rparr>\<rparr>,
             \<lparr>sleeps = [0..<k], draws = k + 1\<rparr>)"
  using invoke_cases[of self rnd input]
proof (elim disjE exE conjE)
  fix k'
  assume k': "\<not> rnd k'" "\<forall>j<k'. rnd j"
    and inv: "invoke self input rnd =
            (case format_value (dict_get input ''data'') of
               Inl e \<Rightarrow> Inl e | Inr d \<Rightarrow> Inr (success_response d k'),
             self\<lparr>metrics := (metrics self)\<lparr>calls := calls (metrics self) + 1,
                                             retries := retries (metrics self) + int k'\<rparr>\<rparr>,
             \<lparr>sleeps = [0..<k'], draws = k' + 1\<rparr>)"
  have kk: "k' = k" using first_failure_unique[OF assms(3,4) k'] .
  from inv show ?thesis unfolding kk .
next
  assume "\<forall>j<38. rnd j"
  with assms(2,3) show ?thesis by auto
next
  assume "\<forall>j. int j < max_retries self \<longrightarrow> rnd j"
  with assms(1,3) show ?thesis by blast
next
  assume "max_retries self \<le> 0"
  with assms(1) show ?thesis by simp
qed


lemma invoke_fallback_case:
  assumes "0 < max_retries self" "max_retries self \<le> 38" "\<forall>j. int j < max_retries self \<longrightarrow> rnd j"
  shows "invoke self input rnd =
            (Inr (fallback_response (PyExc ConnectionError ''Network timeout'')),
             self\<lparr>metrics := (metrics self)\<lparr>calls := calls (metrics self) + 1,
                                             retries := retries (metrics self) + max_retries self,
                                             failures := failures (metrics self) + 1\<rparr>\<rparr>,
             \<lparr>sleeps = [0..<nat (max_retries self) - 1], draws = nat (max_retries self)\<rparr>)"
  using invoke_cases[of self rnd input]
proof (elim disjE exE conjE)
  fix k
  assume "int k < max_retries self" "\<not> rnd k"
  with assms(3) show ?thesis by blast
next
  assume "39 \<le> max_retries self"
  with assms(2) show ?thesis by simp
next
  assume "max_retries self \<le> 0"
  with assms(1) show ?thesis by simp
qed

lemma invoke_exhausted_case:
  assumes "max_retries self \<le> 0"
  shows "invoke self input rnd =
            (Inr exhausted_response,
             self\<lparr>metrics := (metrics self)\<lparr>calls := calls (metrics self) + 1\<rparr>\<rparr>,
             \<lparr>sleeps = [], draws = 0\<rparr>)"
  using invoke_cases[of self rnd input] assms by auto




text \<open>
  The counters after one call and after a sequence of calls on one client: every call
  counts one call; it counts one retry for every failed draw up to the first draw that does
  not fail, up to the last attempt or up to the back-off that raises, whichever comes first;
  and it counts one failure when the last attempt is reached and fails.
\<close>

lemma takeWhile_upt_first:
  assumes "\<not> P k" "\<forall>j<k. P j" "k < n"
  shows "takeWhile P [0..<n] = [0..<k]"
proof -
  have "[0..<k + (n - k)] = [0..<k] @ [k..<k + (n - k)]"
    by (rule upt_add_eq_append) simp
  then have "[0..<n] = [0..<k] @ [k..<n]" using assms(3) by simp
  also have "[k..<n] = k # [Suc k..<n]" using assms(3) by (rule upt_conv_Cons)
  finally have split: "[0..<n] = [0..<k] @ k # [Suc k..<n]" .
  have "\<And>x. x \<in> set [0..<k] \<Longrightarrow> P x" using assms(2) by simp
  then have "takeWhile P ([0..<k] @ k # [Suc k..<n]) = [0..<k] @ takeWhile P (k # [Suc k..<n])"
    by (rule takeWhile_append2)
  also have "takeWhile P (k # [Suc k..<n]) = []" using assms(1) by simp
  finally show ?thesis unfolding split by simp
qed

lemma length_takeWhile_upt_all: "\<forall>j<n. P j \<Longrightarrow> length (takeWhile P [0..<n]) = n"
proof -
  assume "\<forall>j<n. P j"
  then have "takeWhile P [0..<n] = [0..<n]" by (simp add: takeWhile_eq_all_conv)
  then have "length (takeWhile P [0..<n]) = length [0..<n]" by (rule arg_cong)
  then show ?thesis by (simp only: length_upt diff_zero)
qed

lemma takeWhile_upt_all: "\<forall>j<n. P j \<Longrightarrow> takeWhile P [0..<n] = [0..<n]"
  by (simp add: takeWhile_eq_all_conv)

lemma invoke_max_retries: "max_retries (fst (snd (invoke self input rnd))) = max_retries self"
  using invoke_cases[of self rnd input] by (elim disjE exE conjE) simp_all

lemma invoke_metrics:
  "metrics (fst (snd (invoke self input rnd))) =
     (metrics self)\<lparr>calls := calls (metrics self) + 1,
                    failures := failures (metrics self) +
                      (if 0 < max_retries self \<and> max_retries self \<le> 38
                          \<and> list_all rnd [0..<nat (max_retries self)] then 1 else 0),
                    retries := retries (metrics self) +
                      int (length (takeWhile rnd [0..<min (nat (max_retries self)) 38]))\<rparr>"
  using invoke_cases[of self rnd input]
proof (elim disjE exE conjE)
  fix k
  assume k: "int k < max_retries self" "k \<le> 37" "\<not> rnd k" "\<forall>j<k. rnd j"
    and inv: "invoke self input rnd =
            (case format_value (dict_get input ''data'') of
               Inl e \<Rightarrow> Inl e | Inr d \<Rightarrow> Inr (success_response d k),
             self\<lparr>metrics := (metrics self)\<lparr>calls := calls (metrics self) + 1,
                                             retries := retries (metrics self) + int k\<rparr>\<rparr>,
             \<lparr>sleeps = [0..<k], draws = k + 1\<rparr>)"
  have "k < min (nat (max_retries self)) 38" using k(1,2) by simp
  from takeWhile_upt_first[OF k(3,4) this]
  have t: "length (takeWhile rnd [0..<min (nat (max_retries self)) 38]) = k" by simp
  have "k < nat (max_retries self)" using k(1) by simp
  with k(3) have "\<not> list_all rnd [0..<nat (max_retries self)]"
    by (auto simp: list_all_iff)
  with t show ?thesis unfolding inv by simp
next
  assume o: "39 \<le> max_retries self" "\<forall>j<38. rnd j"
    and inv: "invoke self input rnd =
            (Inl (PyExc OverflowError ''timestamp out of range for platform time_t''),
             self\<lparr>metrics := (metrics self)\<lparr>calls := calls (metrics self) + 1,
                                             retries := retries (metrics self) + 38\<rparr>\<rparr>,
             \<lparr>sleeps = [0..<37], draws = 38\<rparr>)"
  have m: "min (nat (max_retries self)) 38 = 38" using o(1) by simp
  have "length (takeWhile rnd [0..<38]) = 38"
    using o(2) by (rule length_takeWhile_upt_all)
  with o(1) show ?thesis unfolding inv m by simp
next
  assume f: "\<forall>j. int j < max_retries self \<longrightarrow> rnd j" "0 < max_retries self" "max_retries self \<le> 38"
    and inv: "invoke self input rnd =
            (Inr (fallback_response (PyExc ConnectionError ''Network timeout'')),
             self\<lparr>metrics := (metrics self)\<lparr>calls := calls (metrics self) + 1,
                                             retries := retries (metrics self) + max_retries self,
                                             failures := failures (metrics self) + 1\<rparr>\<rparr>,
             \<lparr>sleeps = [0..<nat (max_retries self) - 1], draws = nat (max_retries self)\<rparr>)"
  have m: "min (nat (max_retries self)) 38 = nat (max_retries self)" using f(3) by simp
  have all: "\<forall>j<nat (max_retries self). rnd j" using f(1) by simp
  then have "length (takeWhile rnd [0..<nat (max_retries self)]) = nat (max_retries self)"
    by (rule length_takeWhile_upt_all)
  moreover have "list_all rnd [0..<nat (max_retries self)]" using all by (simp add: list_all_iff)
  ultimately show ?thesis unfolding inv m using f(2,3) by simp
next
  assume e: "max_retries self \<le> 0"
    and inv: "invoke self input rnd =
            (Inr exhausted_response,
             self\<lparr>metrics := (metrics self)\<lparr>calls := calls (metrics self) + 1\<rparr>\<rparr>,
             \<lparr>sleeps = [], draws = 0\<rparr>)"
  then show ?thesis unfolding inv by simp
qed

lemma invoke_all_counters:
  "max_retries (invoke_all self reqs) = max_retries self
   \<and> metrics (invoke_all self reqs) =
     (metrics self)\<lparr>calls := calls (metrics self) + int (length reqs),
                    failures := failures (metrics self) +
                      int (length (filter (\<lambda>rq. 0 < max_retries self \<and> max_retries self \<le> 38
                          \<and> list_all (snd rq) [0..<nat (max_retries self)]) reqs)),
                    retries := retries (metrics self) +
                      int (sum_list (map (\<lambda>rq. length (takeWhile (snd rq)
                          [0..<min (nat (max_retries self)) 38])) reqs))\<rparr>"
proof (induction reqs arbitrary: self)
  case Nil
  show ?case by simp
next
  case (Cons rq reqs)
  obtain input rnd where rq: "rq = (input, rnd)" by (cases rq)
  let ?s = "fst (snd (invoke self input rnd))"
  have mr: "max_retries ?s = max_retries self" by (rule invoke_max_retries)
  from Cons.IH[of ?s] show ?case
    unfolding rq by (simp add: mr invoke_metrics)
qed

lemma invoke_inequalities:
  assumes "0 \<le> failures (metrics self)" "failures (metrics self) \<le> calls (metrics self)"
    "failures (metrics self) * max_retries self \<le> retries (metrics self)"
    "retries (metrics self) \<le> calls (metrics self) * max 0 (max_retries self)"
  shows "0 \<le> failures (metrics (fst (snd (invoke self input rnd))))
    \<and> failures (metrics (fst (snd (invoke self input rnd)))) \<le> calls (metrics (fst (snd (invoke self input rnd))))
    \<and> failures (metrics (fst (snd (invoke self input rnd)))) * max_retries self
         \<le> retries (metrics (fst (snd (invoke self input rnd))))
    \<and> retries (metrics (fst (snd (invoke self input rnd))))
         \<le> calls (metrics (fst (snd (invoke self input rnd)))) * max 0 (max_retries self)"
proof -
  define mr where "mr = max_retries self"
  define dr where "dr = int (length (takeWhile rnd [0..<min (nat mr) 38]))"
  define df :: int where "df = (if 0 < mr \<and> mr \<le> 38 \<and> list_all rnd [0..<nat mr] then 1 else 0)"
  have "length (takeWhile rnd [0..<min (nat mr) 38]) \<le> length [0..<min (nat mr) 38]"
    by (rule length_takeWhile_le)
  then have dr_le: "dr \<le> max 0 mr" "0 \<le> dr" by (auto simp: dr_def)
  have df_dr: "df * mr \<le> dr"
  proof (cases "0 < mr \<and> mr \<le> 38 \<and> list_all rnd [0..<nat mr]")
    case True
    then have "\<forall>j<nat mr. rnd j" by (simp add: list_all_iff)
    then have "\<forall>j<min (nat mr) 38. rnd j" by simp
    moreover have "int (min (nat mr) 38) = mr"
    proof -
      from True have "nat mr \<le> 38" "0 \<le> mr" by linarith+
      then show ?thesis by (simp add: min_def)
    qed
    ultimately have "dr = mr" using length_takeWhile_upt_all[of "min (nat mr) 38" rnd] by (simp add: dr_def)
    with True show ?thesis by (simp add: df_def)
  next
    case False
    then have "df = 0" by (simp only: df_def if_False)
    with dr_le show ?thesis by simp
  qed
  have df01: "0 \<le> df" "df \<le> 1" by (simp_all add: df_def)
  have m: "metrics (fst (snd (invoke self input rnd))) =
     (metrics self)\<lparr>calls := calls (metrics self) + 1, failures := failures (metrics self) + df,
                    retries := retries (metrics self) + dr\<rparr>"
    unfolding invoke_metrics df_def dr_def mr_def ..
  have a: "(failures (metrics self) + df) * mr \<le> retries (metrics self) + dr"
    using assms(3) df_dr by (simp add: algebra_simps mr_def)
  have b: "retries (metrics self) + dr \<le> (calls (metrics self) + 1) * max 0 mr"
    using assms(4) dr_le by (simp add: algebra_simps mr_def)
  show ?thesis unfolding m using assms(1,2) df01 a b by (simp add: mr_def)
qed

lemma invoke_all_inequalities:
  "0 \<le> failures (metrics self) \<Longrightarrow> failures (metrics self) \<le> calls (metrics self) \<Longrightarrow>
   failures (metrics self) * max_retries self \<le> retries (metrics self) \<Longrightarrow>
   retries (metrics self) \<le> calls (metrics self) * max 0 (max_retries self) \<Longrightarrow>
   0 \<le> failures (metrics (invoke_all self reqs))
    \<and> failures (metrics (invoke_all self reqs)) \<le> calls (metrics (invoke_all self reqs))
    \<and> failures (metrics (invoke_all self reqs)) * max_retries self
         \<le> retries (metrics (invoke_all self reqs))
    \<and> retries (metrics (invoke_all self reqs))
         \<le> calls (metrics (invoke_all self reqs)) * max 0 (max_retries self)"
proof (induction reqs arbitrary: self)
  case Nil
  then show ?case by simp
next
  case (Cons rq reqs)
  obtain input rnd where rq: "rq = (input, rnd)" by (cases rq)
  let ?s = "fst (snd (invoke self input rnd))"
  have mr: "max_retries ?s = max_retries self" by (rule invoke_max_retries)
  from invoke_inequalities[OF Cons.prems, of input rnd]
  have "0 \<le> failures (metrics ?s)" "failures (metrics ?s) \<le> calls (metrics ?s)"
    "failures (metrics ?s) * max_retries ?s \<le> retries (metrics ?s)"
    "retries (metrics ?s) \<le> calls (metrics ?s) * max 0 (max_retries ?s)"
    unfolding mr by simp_all
  from Cons.IH[OF this] show ?case unfolding rq mr by simp
qed




text \<open>
  Claim C2 (amended). Retrying is implemented by repository code: \<open>RobustAPIClient.invoke\<close>
  re-attempts a failed call in its own loop. When the first \<open>k\<close> draws fail and draw \<open>k\<close> does
  not, with \<open>k < max_retries\<close> and \<open>k \<le> 37\<close>, and the value under \<open>"data"\<close> can be formatted
  (it is not an integer of more than 4300 digits), \<open>invoke\<close> makes \<open>k + 1\<close> attempts, counts
  one call and \<open>k\<close> retries, backs off after each of the \<open>k\<close> failures with the exponents
  \<open>0, ..., k - 1\<close> and returns the success response with the formatted value and
  \<open>"attempt"\<close> equal to \<open>k + 1\<close>.
\<close>

theorem invoke_first_success:
  assumes "int k < max_retries self" "k \<le> 37" "\<not> rnd k" "\<forall>j<k. rnd j"
    and "format_value (dict_get input ''data'') = Inr data"
  shows "invoke self input rnd =
            (Inr (success_response data k),
             self\<lparr>metrics := (metrics self)\<lparr>calls := calls (metrics self) + 1,
                                             retries := retries (metrics self) + int k\<rparr>\<rparr>,
             \<lparr>sleeps = [0..<k], draws = k + 1\<rparr>)"
  using invoke_success_case[OF assms(1-4), of input] assms(5) by simp

theorem invoke_first_success_witness:
  "int (1::nat) < max_retries (RobustAPIClient_init 3) \<and> (1::nat) \<le> 37 \<and> \<not> ((1::nat) < 1)
   \<and> format_value (dict_get [(''data'', PNone)] ''data'') = Inr ''None''
   \<and> invoke (RobustAPIClient_init 3) [(''data'', PNone)] (\<lambda>k. k < 1) =
       (Inr (success_response ''None'' 1),
        (RobustAPIClient_init 3)\<lparr>metrics := (metrics (RobustAPIClient_init 3))
            \<lparr>calls := calls (metrics (RobustAPIClient_init 3)) + 1,
             retries := retries (metrics (RobustAPIClient_init 3)) + int 1\<rparr>\<rparr>,
        \<lparr>sleeps = [0..<1], draws = 1 + 1\<rparr>)"
proof -
  have h: "int (1::nat) < max_retries (RobustAPIClient_init 3)" "(1::nat) \<le> 37" "\<not> ((1::nat) < 1)"
    "\<forall>j<1::nat. j < 1"
    by (simp_all add: RobustAPIClient_init_def)
  have f: "format_value (dict_get [(''data'', PNone)] ''data'') = Inr ''None''"
    by (simp add: dict_get_def)
  from invoke_first_success[of 1 "RobustAPIClient_init 3" "\<lambda>k. k < 1", OF h f] h f
  show ?thesis by blast
qed

text \<open>
  Claim C2 as stated fails: with three retries allowed and a first draw that fails, \<open>invoke\<close>
  itself makes a second attempt, after one back-off sleep, and returns its success.
\<close>

theorem invoke_reattempts_counterexample:
  "invoke (RobustAPIClient_init 3) [(''data'', PStr ''request_0'')] (\<lambda>k. k < 1)
     = (Inr [(''status'', PStr ''success''), (''data'', PStr ''Processed: request_0''),
             (''attempt'', PInt 2)],
        \<lparr>max_retries = 3, metrics = \<lparr>calls = 1, failures = 0, retries = 1\<rparr>\<rparr>,
        \<lparr>sleeps = [0], draws = 2\<rparr>)"
  by code_simp

text \<open>
  Claim C6 (amended). \<open>RobustAPIClient\<close> keeps mutable per-instance counters across
  invocations. After any sequence of invocations on a fresh client, \<open>calls\<close> is the number of
  invocations; \<open>failures\<close> is the number of invocations whose \<open>max_retries\<close> attempts all
  failed, with \<open>0 < max_retries \<le> 38\<close>; and \<open>retries\<close> is the sum over the invocations of the
  number of failed draws before the first draw that does not fail, counted among the first
  \<open>max_retries\<close> and at most 38 draws. Hence \<open>0 \<le> failures \<le> calls\<close>,
  \<open>failures * max_retries \<le> retries\<close> and \<open>retries \<le> calls * max(0, max_retries)\<close>.
\<close>

theorem metrics_counted:
  "metrics (invoke_all (RobustAPIClient_init mr) reqs) =
     \<lparr>calls = int (length reqs),
      failures = int (length (filter (\<lambda>rq. 0 < mr \<and> mr \<le> 38 \<and> list_all (snd rq) [0..<nat mr]) reqs)),
      retries = int (sum_list (map (\<lambda>rq. length (takeWhile (snd rq) [0..<min (nat mr) 38])) reqs))\<rparr>
   \<and> 0 \<le> failures (metrics (invoke_all (RobustAPIClient_init mr) reqs))
   \<and> failures (metrics (invoke_all (RobustAPIClient_init mr) reqs))
        \<le> calls (metrics (invoke_all (RobustAPIClient_init mr) reqs))
   \<and> failures (metrics (invoke_all (RobustAPIClient_init mr) reqs)) * mr
        \<le> retries (metrics (invoke_all (RobustAPIClient_init mr) reqs))
   \<and> retries (metrics (invoke_all (RobustAPIClient_init mr) reqs))
        \<le> calls (metrics (invoke_all (RobustAPIClient_init mr) reqs)) * max 0 mr"
proof -
  let ?c = "RobustAPIClient_init mr"
  have i: "max_retries ?c = mr" "metrics ?c = \<lparr>calls = 0, failures = 0, retries = 0\<rparr>"
    by (simp_all add: RobustAPIClient_init_def)
  have eq: "metrics (invoke_all ?c reqs) =
     \<lparr>calls = int (length reqs),
      failures = int (length (filter (\<lambda>rq. 0 < mr \<and> mr \<le> 38 \<and> list_all (snd rq) [0..<nat mr]) reqs)),
      retries = int (sum_list (map (\<lambda>rq. length (takeWhile (snd rq) [0..<min (nat mr) 38])) reqs))\<rparr>"
    using invoke_all_counters[of ?c reqs] unfolding i by simp
  have "0 \<le> failures (metrics ?c)" "failures (metrics ?c) \<le> calls (metrics ?c)"
    "failures (metrics ?c) * max_retries ?c \<le> retries (metrics ?c)"
    "retries (metrics ?c) \<le> calls (metrics ?c) * max 0 (max_retries ?c)"
    unfolding i by simp_all
  from invoke_all_inequalities[OF this, of reqs] have ineq:
    "0 \<le> failures (metrics (invoke_all ?c reqs))
    \<and> failures (metrics (invoke_all ?c reqs)) \<le> calls (metrics (invoke_all ?c reqs))
    \<and> failures (metrics (invoke_all ?c reqs)) * mr \<le> retries (metrics (invoke_all ?c reqs))
    \<and> retries (metrics (invoke_all ?c reqs)) \<le> calls (metrics (invoke_all ?c reqs)) * max 0 mr"
    unfolding i .
  from eq ineq show ?thesis by (rule conjI)
qed

text \<open>
  Claim C6 as stated fails: the counters of one instance change from call to call. After a
  call that succeeds at its second attempt and a call whose three attempts all fail, the
  metrics are no longer the initial ones.
\<close>

theorem metrics_mutable_counterexample:
  "metrics (invoke_all (RobustAPIClient_init 3)
      [([(''data'', PStr ''request_0'')], \<lambda>k. k < 1), ([(''data'', PStr ''request_1'')], \<lambda>k. True)])
    = \<lparr>calls = 2, failures = 1, retries = 4\<rparr>
   \<and> metrics (RobustAPIClient_init 3) = \<lparr>calls = 0, failures = 0, retries = 0\<rparr>"
  by code_simp

section \<open>Properties of CachingRunnable\<close>








section \<open>The cache key determines the sorted items\<close>







































section \<open>Properties of the main functions\<close>

lemma try_body_raises:
  "\<forall>d'\<in>set pre. demo_run w d' = Returns \<Longrightarrow>
   \<forall>i<length pre. stdin_run w (n + i) = Returns \<Longrightarrow>
   demo_run w d = Raises e \<Longrightarrow>
   try_body s w (pre @ d # post) n =
     (concat (map (\<lambda>d'. [DemoCall d', Stdin (prompt s)]) pre) @ [DemoCall d], Some e)"
proof (induction pre arbitrary: n)
  case Nil
  then show ?case by (cases post) simp_all
next
  case (Cons a pre)
  obtain x xs where px: "pre @ d # post = x # xs" by (cases pre) auto
  have a: "demo_run w a = Returns" and pre: "\<forall>d'\<in>set pre. demo_run w d' = Returns"
    using Cons.prems(1) by auto
  have st0: "stdin_run w n = Returns" using Cons.prems(2) by (metis add.right_neutral length_Cons zero_less_Suc)
  have st: "\<forall>i<length pre. stdin_run w (Suc n + i) = Returns"
    using Cons.prems(2) by (metis Suc_less_eq add_Suc_shift length_Cons)
  from Cons.IH[OF pre st Cons.prems(3)]
  have IH: "try_body s w (x # xs) (Suc n) =
     (concat (map (\<lambda>d'. [DemoCall d', Stdin (prompt s)]) pre) @ [DemoCall d], Some e)"
    by (simp add: px)
  have "try_body s w ((a # pre) @ d # post) n = try_body s w (a # x # xs) n" by (simp add: px)
  also have "\<dots> = (DemoCall a # Stdin (prompt s) #
        (concat (map (\<lambda>d'. [DemoCall d', Stdin (prompt s)]) pre) @ [DemoCall d]), Some e)"
    using a st0 IH by simp
  finally show ?case by simp
qed

text \<open>
  Claim C3 (amended). For every script, with an API key set: when a demo function called
  from \<open>main\<close> raises an exception that is an instance of \<open>Exception\<close>, after the demo
  functions and prompts before it returned, the \<open>try\<close>/\<open>except\<close> of \<open>main\<close> catches it, prints
  the line with \<open>str(e)\<close>, and \<open>main\<close> returns normally; the demo functions after the failing
  one are not called.
\<close>

theorem main_catches_Exception:
  assumes key: "env w ''GOOGLE_API_KEY'' = Some k" "k \<noteq> []"
    and numpy: "numpy_check s \<longrightarrow> numpy_importable w"
    and split: "demos s = pre @ d # post"
    and before: "\<forall>d'\<in>set pre. demo_run w d' = Returns" "\<forall>i<length pre. stdin_run w i = Returns"
    and raises: "demo_run w d = Raises e"
    and cls: "is_Exception (exc_cls e)"
  shows "main s w =
           ([Out Banner, GetEnv ''GOOGLE_API_KEY'']
              @ concat (map (\<lambda>d'. [DemoCall d', Stdin (prompt s)]) pre)
              @ [DemoCall d] @ except_handler s e, Returned)
         \<and> Out (ErrorLine (exc_msg e)) \<in> set (fst (main s w))
         \<and> called (fst (main s w)) = pre @ [d]"
proof -
  have "try_body s w (demos s) 0 =
     (concat (map (\<lambda>d'. [DemoCall d', Stdin (prompt s)]) pre) @ [DemoCall d], Some e)"
    unfolding split using before raises by (intro try_body_raises) simp_all
  then have m: "main s w =
           ([Out Banner, GetEnv ''GOOGLE_API_KEY'']
              @ concat (map (\<lambda>d'. [DemoCall d', Stdin (prompt s)]) pre)
              @ [DemoCall d] @ except_handler s e, Returned)"
    using key numpy cls by (simp add: main_def getenv_def)
  have "called (concat (map (\<lambda>d'. [DemoCall d', Stdin (prompt s)]) pre) @ evs) = pre @ called evs"
    for evs by (induction pre) simp_all
  then show ?thesis unfolding m by (auto split: handler_kind.splits)
qed

text \<open>An exception that is not an instance of \<open>Exception\<close> leaves \<open>main\<close>.\<close>

lemma main_propagates_BaseException:
  assumes key: "env w ''GOOGLE_API_KEY'' = Some k" "k \<noteq> []"
    and numpy: "numpy_check s \<longrightarrow> numpy_importable w"
    and split: "demos s = pre @ d # post"
    and before: "\<forall>d'\<in>set pre. demo_run w d' = Returns" "\<forall>i<length pre. stdin_run w i = Returns"
    and raises: "demo_run w d = Raises e"
    and cls: "\<not> is_Exception (exc_cls e)"
  shows "snd (main s w) = Propagated e"
proof -
  have "try_body s w (demos s) 0 =
     (concat (map (\<lambda>d'. [DemoCall d', Stdin (prompt s)]) pre) @ [DemoCall d], Some e)"
    unfolding split using before raises by (intro try_body_raises) simp_all
  then show ?thesis
    using key numpy cls by (simp add: main_def getenv_def)
qed

text \<open>
  Claim C3 as stated fails for an exception outside \<open>Exception\<close>: when the user interrupts
  the third demo function of chains/04_conditional_chains.py, \<open>KeyboardInterrupt\<close> is not
  caught by \<open>except Exception\<close>, nothing is printed for it and it propagates out of \<open>main\<close>.
\<close>

theorem main_interrupt_counterexample:
  "demo_run world_interrupt ''intent_based_routing'' = Raises (PyExc KeyboardInterrupt [])
   \<and> main chains_04_conditional_chains world_interrupt =
     ([Out Banner, GetEnv ''GOOGLE_API_KEY'',
       DemoCall ''basic_conditional'', Stdin ''Press Enter to continue...'',
       DemoCall ''multi_condition_routing'', Stdin ''Press Enter to continue...'',
       DemoCall ''intent_based_routing''],
      Propagated (PyExc KeyboardInterrupt []))"
  by code_simp



theorem main_catches_Exception_witness:
  "env world_value_error ''GOOGLE_API_KEY'' = Some ''secret''
   \<and> demo_run world_value_error ''semantic_search_example'' = Raises (PyExc ValueError ''shapes not aligned'')
   \<and> is_Exception ValueError
   \<and> main models_03_embeddings_example world_value_error =
       ([Out Banner, GetEnv ''GOOGLE_API_KEY'',
         DemoCall ''basic_embedding_example'', Stdin ''Press Enter to continue...'',
         DemoCall ''similarity_comparison'', Stdin ''Press Enter to continue...'',
         DemoCall ''semantic_search_example'',
         Out (ErrorLine ''shapes not aligned''), Out KeyInvalidHint], Returned)"
proof -
  let ?s = models_03_embeddings_example and ?w = world_value_error
  have key: "env ?w ''GOOGLE_API_KEY'' = Some ''secret''" "''secret'' \<noteq> []"
    by (simp_all add: world_value_error_def)
  have numpy: "numpy_check ?s \<longrightarrow> numpy_importable ?w" by (simp add: world_value_error_def)
  have split: "demos ?s = [''basic_embedding_example'', ''similarity_comparison'']
      @ ''semantic_search_example'' # [''practical_use_case'', ''batch_embedding_example'']"
    by (simp add: models_03_embeddings_example_def)
  have before: "\<forall>d'\<in>set [''basic_embedding_example'', ''similarity_comparison'']. demo_run ?w d' = Returns"
    "\<forall>i<length [''basic_embedding_example'', ''similarity_comparison'']. stdin_run ?w i = Returns"
    by (simp_all add: world_value_error_def)
  have raises: "demo_run ?w ''semantic_search_example'' = Raises (PyExc ValueError ''shapes not aligned'')"
    by (simp add: world_value_error_def)
  have cls: "is_Exception (exc_cls (PyExc ValueError ''shapes not aligned''))" by simp
  from main_catches_Exception[OF key numpy split before raises cls] key(1) raises
  show ?thesis by (simp add: models_03_embeddings_example_def)
qed

text \<open>
  What \<open>main\<close> itself reads: in every run of every script the only environment variable
  read is \<open>GOOGLE_API_KEY\<close> and the only reads of standard input are the prompts between two
  demo functions, which all begin with \<open>Press Enter to continue\<close>. What the demo functions
  and the framework read or write is not covered by these lemmas.
\<close>

lemma try_body_events:
  "ev \<in> set (fst (try_body s w ds n)) \<Longrightarrow>
     (\<exists>d. ev = DemoCall d \<and> d \<in> set ds) \<or> ev = Stdin (prompt s) \<or> ev = Out Summary"
proof (induction s w ds n rule: try_body.induct)
  case (1 s w n)
  then show ?case by simp
next
  case (2 s w d n)
  then show ?case by (cases "demo_run w d") auto
next
  case (3 s w d d' ds n)
  show ?case
  proof (cases "demo_run w d")
    case (Raises e)
    with 3 show ?thesis by auto
  next
    case Returns
    show ?thesis
    proof (cases "stdin_run w n")
      case (Raises e)
      with 3 Returns show ?thesis by auto
    next
      case r: Returns
      obtain evs res where t: "try_body s w (d' # ds) (Suc n) = (evs, res)"
        by (cases "try_body s w (d' # ds) (Suc n)")
      with "3.prems" Returns r have "ev = DemoCall d \<or> ev = Stdin (prompt s) \<or> ev \<in> set evs" by auto
      moreover have "ev \<in> set evs \<Longrightarrow> ?thesis"
        using "3.IH"[OF Returns r] t by auto
      ultimately show ?thesis by auto
    qed
  qed
qed

lemma main_events:
  assumes "ev \<in> set (fst (main s w))"
  shows "(\<exists>d. ev = DemoCall d \<and> d \<in> set (demos s)) \<or> ev = Stdin (prompt s)
         \<or> ev = GetEnv ''GOOGLE_API_KEY'' \<or> (\<exists>l. ev = Out l)"
proof -
  obtain evs res where t: "try_body s w (demos s) 0 = (evs, res)"
    by (cases "try_body s w (demos s) 0")
  have body: "ev \<in> set evs \<Longrightarrow> ?thesis" using try_body_events[of ev s w "demos s" 0] t by auto
  from assms t have "ev \<in> set evs \<or> ev = GetEnv ''GOOGLE_API_KEY'' \<or> (\<exists>l. ev = Out l)"
    by (auto simp: main_def Let_def split: if_splits option.splits handler_kind.splits)
  with body show ?thesis by blast
qed

lemma scripts_prompts: "list_all (\<lambda>s. take 23 (prompt s) = ''Press Enter to continue'') scripts"
  by code_simp

section \<open>Properties of the validators\<close>













section \<open>Properties of the helper functions\<close>

lemma split_ws_concat:
  "concat (split_ws cur s) = cur @ filter (\<lambda>c. \<not> py_isspace c) s"
  by (induction cur s rule: split_ws.induct) simp_all

lemma split_ws_words:
  "list_all (\<lambda>c. \<not> py_isspace c) cur \<Longrightarrow>
     list_all (\<lambda>w. w \<noteq> [] \<and> list_all (\<lambda>c. \<not> py_isspace c) w) (split_ws cur s)"
proof (induction cur s rule: split_ws.induct)
  case (1 cur)
  then show ?case by simp
next
  case (2 cur c cs)
  show ?case
  proof (cases "py_isspace c")
    case True
    with 2 show ?thesis by (cases "cur = []") simp_all
  next
    case False
    with 2 show ?thesis by simp
  qed
qed

text \<open>
  As it is called in the repository, through \<open>RunnableGenerator(custom_streamer).stream\<close>,
  \<open>custom_streamer\<close> receives an iterator: \<open>input.get\<close> raises before any chunk is yielded.
\<close>

lemma custom_streamer_as_called:
  "custom_streamer (IteratorArg tn)
     = Inl (PyExc AttributeError (py_repr_str tn @ '' object has no attribute '' @ py_repr_str ''get''))"
  by (simp add: no_attribute_def)

text \<open>The list comprehension of \<open>TextAnalyzer.batch\<close> returns exactly when every \<open>invoke\<close> does.\<close>

lemma TextAnalyzer_batch_iff:
  "TextAnalyzer_batch inputs = Inr results \<longleftrightarrow> map TextAnalyzer_invoke inputs = map Inr results"
proof (induction inputs arbitrary: results)
  case Nil
  then show ?case by auto
next
  case (Cons input inputs)
  show ?case
  proof (cases "TextAnalyzer_invoke input")
    case (Inl e)
    then show ?thesis by (cases results) auto
  next
    case (Inr r)
    show ?thesis
    proof (cases "TextAnalyzer_batch inputs")
      case (Inl e)
      with Cons.IH have "\<And>rs. map TextAnalyzer_invoke inputs \<noteq> map Inr rs" by simp
      with Inl Inr show ?thesis by (cases results) auto
    next
      case rs: (Inr rs)
      with Cons.IH[of rs] have m: "map TextAnalyzer_invoke inputs = map Inr rs" by simp
      have inj: "map Inr rs = map Inr rs' \<longleftrightarrow> rs = rs'" for rs' :: "pydict list"
        by (simp add: inj_map_eq_map)
      show ?thesis using Inr rs m inj by (cases results) auto
    qed
  qed
qed

text \<open>
  Claim C7 (amended). Streaming, batching and retries are also implemented by repository
  code. For a string under \<open>"text"\<close> (the empty string when the key is missing),
  \<open>TextAnalyzer.invoke\<close> returns the entries \<open>original\<close>, \<open>word_count\<close>, \<open>char_count\<close>,
  \<open>uppercase_count\<close> and \<open>sentence_count\<close>, and the generator \<open>TextAnalyzer.stream\<close> itself
  yields the chunks: one dictionary with a single entry for each of them, in this order.
  \<open>TextAnalyzer.batch\<close> itself calls \<open>invoke\<close> on every input in turn and returns the list of
  the results. The loop of \<open>RobustAPIClient.invoke\<close> itself performs the retries: when every
  draw fails, with \<open>0 < max_retries \<le> 38\<close>, it makes \<open>max_retries\<close> attempts, backs off
  after each but the last, counts one call, \<open>max_retries\<close> retries and one failure, and
  returns the fallback response.
\<close>

theorem repository_stream_batch_retry:
  "(dict_get_default input ''text'' (PStr []) = PStr s \<longrightarrow>
      TextAnalyzer_invoke input =
        Inr [(''original'', PStr s),
             (''word_count'', PInt (int (length (py_split s)))),
             (''char_count'', PInt (int (length s))),
             (''uppercase_count'', PInt (int (length (filter py_isupper_char s)))),
             (''sentence_count'',
                 PInt (int (count_list s (CHR ''.'') + count_list s (CHR ''!'')
                            + count_list s (CHR ''?''))))]
      \<and> TextAnalyzer_stream input =
        Inr [[(''original'', PStr s)],
             [(''word_count'', PInt (int (length (py_split s))))],
             [(''char_count'', PInt (int (length s)))],
             [(''uppercase_count'', PInt (int (length (filter py_isupper_char s))))],
             [(''sentence_count'',
                 PInt (int (count_list s (CHR ''.'') + count_list s (CHR ''!'')
                            + count_list s (CHR ''?''))))]])
   \<and> (TextAnalyzer_batch inputs = Inr results
        \<longleftrightarrow> map TextAnalyzer_invoke inputs = map Inr results)
   \<and> (0 < max_retries self \<and> max_retries self \<le> 38 \<and> (\<forall>j. int j < max_retries self \<longrightarrow> rnd j)
        \<longrightarrow> invoke self input' rnd =
            (Inr (fallback_response (PyExc ConnectionError ''Network timeout'')),
             self\<lparr>metrics := (metrics self)\<lparr>calls := calls (metrics self) + 1,
                                             retries := retries (metrics self) + max_retries self,
                                             failures := failures (metrics self) + 1\<rparr>\<rparr>,
             \<lparr>sleeps = [0..<nat (max_retries self) - 1], draws = nat (max_retries self)\<rparr>))"
proof (intro conjI impI)
  assume t: "dict_get_default input ''text'' (PStr []) = PStr s"
  then show "TextAnalyzer_invoke input =
        Inr [(''original'', PStr s),
             (''word_count'', PInt (int (length (py_split s)))),
             (''char_count'', PInt (int (length s))),
             (''uppercase_count'', PInt (int (length (filter py_isupper_char s)))),
             (''sentence_count'',
                 PInt (int (count_list s (CHR ''.'') + count_list s (CHR ''!'')
                            + count_list s (CHR ''?''))))]"
    by (simp add: TextAnalyzer_invoke_def)
  from t show "TextAnalyzer_stream input =
        Inr [[(''original'', PStr s)],
             [(''word_count'', PInt (int (length (py_split s))))],
             [(''char_count'', PInt (int (length s)))],
             [(''uppercase_count'', PInt (int (length (filter py_isupper_char s))))],
             [(''sentence_count'',
                 PInt (int (count_list s (CHR ''.'') + count_list s (CHR ''!'')
                            + count_list s (CHR ''?''))))]]"
    by (simp add: TextAnalyzer_stream_def TextAnalyzer_invoke_def)
next
  show "TextAnalyzer_batch inputs = Inr results
        \<longleftrightarrow> map TextAnalyzer_invoke inputs = map Inr results"
    by (rule TextAnalyzer_batch_iff)
next
  assume "0 < max_retries self \<and> max_retries self \<le> 38 \<and> (\<forall>j. int j < max_retries self \<longrightarrow> rnd j)"
  then show "invoke self input' rnd =
            (Inr (fallback_response (PyExc ConnectionError ''Network timeout'')),
             self\<lparr>metrics := (metrics self)\<lparr>calls := calls (metrics self) + 1,
                                             retries := retries (metrics self) + max_retries self,
                                             failures := failures (metrics self) + 1\<rparr>\<rparr>,
             \<lparr>sleeps = [0..<nat (max_retries self) - 1], draws = nat (max_retries self)\<rparr>)"
    by (intro invoke_fallback_case) simp_all
qed

theorem repository_stream_batch_retry_witness:
  "dict_get_default [(''text'', PStr ''Short text.'')] ''text'' (PStr []) = PStr ''Short text.''
   \<and> TextAnalyzer_stream [(''text'', PStr ''Short text.'')] =
       Inr [[(''original'', PStr ''Short text.'')], [(''word_count'', PInt 2)],
            [(''char_count'', PInt 11)], [(''uppercase_count'', PInt 1)],
            [(''sentence_count'', PInt 1)]]
   \<and> TextAnalyzer_batch [[(''text'', PStr ''Short text.'')], [(''user'', PStr ''alice'')]] =
       Inr [[(''original'', PStr ''Short text.''), (''word_count'', PInt 2),
             (''char_count'', PInt 11), (''uppercase_count'', PInt 1),
             (''sentence_count'', PInt 1)],
            [(''original'', PStr []), (''word_count'', PInt 0),
             (''char_count'', PInt 0), (''uppercase_count'', PInt 0),
             (''sentence_count'', PInt 0)]]
   \<and> 0 < max_retries (RobustAPIClient_init 3) \<and> max_retries (RobustAPIClient_init 3) \<le> 38
   \<and> fst (invoke (RobustAPIClient_init 3) [] (\<lambda>k. True)) =
       Inr (fallback_response (PyExc ConnectionError ''Network timeout''))"
proof -
  let ?i = "[(''text'', PStr ''Short text.'')]" and ?s = "''Short text.''"
  let ?r1 = "[(''original'', PStr ''Short text.''), (''word_count'', PInt 2),
             (''char_count'', PInt 11), (''uppercase_count'', PInt 1),
             (''sentence_count'', PInt 1)]"
  let ?r2 = "[(''original'', PStr []), (''word_count'', PInt 0),
             (''char_count'', PInt 0), (''uppercase_count'', PInt 0),
             (''sentence_count'', PInt 0)]"
  let ?c = "RobustAPIClient_init 3"
  note T = repository_stream_batch_retry[of ?i ?s "[?i, [(''user'', PStr ''alice'')]]" "[?r1, ?r2]"
      ?c "\<lambda>k. True" "[]"]
  have h: "dict_get_default ?i ''text'' (PStr []) = PStr ?s" by (simp add: dict_get_default_def)
  have vals: "int (length (py_split ?s)) = 2" "int (length ?s) = 11"
    "int (length (filter py_isupper_char ?s)) = 1"
    "int (count_list ?s (CHR ''.'') + count_list ?s (CHR ''!'') + count_list ?s (CHR ''?'')) = 1"
    by code_simp+
  from T h have "TextAnalyzer_stream ?i =
        Inr [[(''original'', PStr ?s)],
             [(''word_count'', PInt (int (length (py_split ?s))))],
             [(''char_count'', PInt (int (length ?s)))],
             [(''uppercase_count'', PInt (int (length (filter py_isupper_char ?s))))],
             [(''sentence_count'',
                 PInt (int (count_list ?s (CHR ''.'') + count_list ?s (CHR ''!'')
                            + count_list ?s (CHR ''?''))))]]" by blast
  then have st: "TextAnalyzer_stream ?i =
       Inr [[(''original'', PStr ?s)], [(''word_count'', PInt 2)],
            [(''char_count'', PInt 11)], [(''uppercase_count'', PInt 1)],
            [(''sentence_count'', PInt 1)]]" by (simp only: vals)
  have "map TextAnalyzer_invoke [?i, [(''user'', PStr ''alice'')]] = map Inr [?r1, ?r2]"
    by code_simp
  with T have ba: "TextAnalyzer_batch [?i, [(''user'', PStr ''alice'')]] = Inr [?r1, ?r2]" by blast
  have mr: "0 < max_retries ?c" "max_retries ?c \<le> 38" "\<forall>j. int j < max_retries ?c \<longrightarrow> (\<lambda>k. True) j"
    by (simp_all add: RobustAPIClient_init_def)
  with T have "invoke ?c [] (\<lambda>k. True) =
            (Inr (fallback_response (PyExc ConnectionError ''Network timeout'')),
             ?c\<lparr>metrics := (metrics ?c)\<lparr>calls := calls (metrics ?c) + 1,
                                             retries := retries (metrics ?c) + max_retries ?c,
                                             failures := failures (metrics ?c) + 1\<rparr>\<rparr>,
             \<lparr>sleeps = [0..<nat (max_retries ?c) - 1], draws = nat (max_retries ?c)\<rparr>)" by blast
  then have fb: "fst (invoke ?c [] (\<lambda>k. True)) =
       Inr (fallback_response (PyExc ConnectionError ''Network timeout''))" by (simp only: fst_conv)
  from h st ba mr(1,2) fb show ?thesis by (intro conjI)
qed

text \<open>
  Claim C7 as stated fails: \<open>analyzer.stream({"text": "Custom runnable test!"})\<close> yields five
  chunks that the generator of the repository computes, and a client with three retries
  whose draws all fail makes three attempts and two back-offs in its own loop before it
  returns the fallback response.
\<close>

theorem repository_stream_retry_counterexample:
  "TextAnalyzer_stream [(''text'', PStr ''Custom runnable test!'')] =
     Inr [[(''original'', PStr ''Custom runnable test!'')], [(''word_count'', PInt 3)],
          [(''char_count'', PInt 21)], [(''uppercase_count'', PInt 1)],
          [(''sentence_count'', PInt 1)]]
   \<and> fst (invoke (RobustAPIClient_init 3) [(''data'', PStr ''request_1'')] (\<lambda>k. True)) =
       Inr [(''status'', PStr ''error''), (''error'', PStr ''Network timeout''),
            (''fallback'', PStr ''Using cached data'')]
   \<and> draws (snd (snd (invoke (RobustAPIClient_init 3) [(''data'', PStr ''request_1'')] (\<lambda>k. True)))) = 3
   \<and> sleeps (snd (snd (invoke (RobustAPIClient_init 3) [(''data'', PStr ''request_1'')] (\<lambda>k. True)))) = [0, 1]"
  by code_simp

text \<open>
  Claim C1 (amended). The helper functions written in the repository have deterministic
  specifications that do not depend on the hosted model. \<open>is_long\<close> returns whether the string
  under \<open>"text"\<close> has more than 50 characters, \<open>False\<close> when the key is missing, and raises
  \<open>TypeError\<close> for a value without a length. \<open>pick_user_text\<close> returns exactly the entries
  \<open>"user"\<close> and \<open>"text"\<close> of its input, maps its own result to itself, and raises \<open>KeyError\<close>
  for the first of the two keys that is missing.
\<close>

theorem helpers_deterministic:
  "(map_of x ''text'' = Some (PStr s) \<longrightarrow> is_long x = Inr (50 < length s))
   \<and> (map_of x ''text'' = None \<longrightarrow> is_long x = Inr False)
   \<and> (map_of x ''text'' = Some v \<longrightarrow> (\<forall>t. v \<noteq> PStr t) \<longrightarrow>
        (\<exists>m. is_long x = Inl (PyExc TypeError m)))
   \<and> (map_of x ''user'' = Some u \<longrightarrow> map_of x ''text'' = Some t \<longrightarrow>
        pick_user_text x = Inr [(''user'', u), (''text'', t)]
        \<and> pick_user_text [(''user'', u), (''text'', t)] = Inr [(''user'', u), (''text'', t)])
   \<and> (map_of x ''user'' = None \<longrightarrow> pick_user_text x = Inl (PyExc KeyError (py_repr_str ''user'')))
   \<and> (map_of x ''user'' = Some u \<longrightarrow> map_of x ''text'' = None \<longrightarrow>
        pick_user_text x = Inl (PyExc KeyError (py_repr_str ''text'')))"
proof (intro conjI impI)
  assume "map_of x ''text'' = Some v" "\<forall>t. v \<noteq> PStr t"
  then show "\<exists>m. is_long x = Inl (PyExc TypeError m)"
    by (cases v) (simp_all add: is_long_def dict_get_default_def)
qed (simp_all add: is_long_def dict_get_default_def pick_user_text_def dict_index_def)

text \<open>
  Claim C1 as stated fails: \<open>is_long\<close> has a boundary between 50 and 51 characters, and
  \<open>pick_user_text\<close> a fixed result, whatever a model answers.
\<close>

theorem helpers_boundary_counterexample:
  "is_long [(''text'', PStr (replicate 50 CHR ''a''))] = Inr False
   \<and> is_long [(''text'', PStr (replicate 51 CHR ''a''))] = Inr True
   \<and> is_long [(''user'', PStr ''alice'')] = Inr False
   \<and> pick_user_text [(''user'', PStr ''alice''), (''text'', PStr ''Hello world''),
                      (''timestamp'', PStr ''2024-01-01'')]
       = Inr [(''user'', PStr ''alice''), (''text'', PStr ''Hello world'')]"
  by code_simp

theorem helpers_deterministic_witness:
  "map_of [(''text'', PStr ''Hello world'')] ''text'' = Some (PStr ''Hello world'')
   \<and> is_long [(''text'', PStr ''Hello world'')] = Inr False
   \<and> map_of [(''user'', PStr ''alice''), (''text'', PStr ''Hello world'')] ''user'' = Some (PStr ''alice'')
   \<and> pick_user_text [(''user'', PStr ''alice''), (''text'', PStr ''Hello world'')]
       = Inr [(''user'', PStr ''alice''), (''text'', PStr ''Hello world'')]
   \<and> map_of [(''text'', PInt 7)] ''text'' = Some (PInt 7)
   \<and> (\<exists>m. is_long [(''text'', PInt 7)] = Inl (PyExc TypeError m))"
proof -
  let ?x = "[(''text'', PStr ''Hello world'')]"
  let ?y = "[(''user'', PStr ''alice''), (''text'', PStr ''Hello world'')]"
  let ?z = "[(''text'', PInt 7)]"
  have h1: "map_of ?x ''text'' = Some (PStr ''Hello world'')" by simp
  have a: "is_long ?x = Inr False"
    using helpers_deterministic[of ?x "''Hello world''" PNone PNone PNone] h1 by simp
  have h2: "map_of ?y ''user'' = Some (PStr ''alice'')" "map_of ?y ''text'' = Some (PStr ''Hello world'')"
    by simp_all
  have b: "pick_user_text ?y = Inr ?y"
    using helpers_deterministic[of ?y "[]" PNone "PStr ''alice''" "PStr ''Hello world''"] h2 by blast
  have h3: "map_of ?z ''text'' = Some (PInt 7)" "\<forall>t. PInt 7 \<noteq> PStr t" by simp_all
  have c: "\<exists>m. is_long ?z = Inl (PyExc TypeError m)"
    using helpers_deterministic[of ?z "[]" "PInt 7" PNone PNone] h3 by blast
  from h1 a h2(1) b h3(1) c show ?thesis by blast
qed

end
